theory Spec2Isabelle
  imports Complex_Main "HOL-Library.AList" "HOL-Library.Monad_Syntax"
begin

section \<open>Floats\<close>

text \<open>
  A Python \<^verbatim>\<open>float\<close>: a finite value, an infinity or NaN. \<^verbatim>\<open>json.loads\<close> returns
  the infinities and NaN for the literals \<^verbatim>\<open>Infinity\<close>, \<^verbatim>\<open>-Infinity\<close> and \<^verbatim>\<open>NaN\<close>, and
  an infinity for a number too large for a double, such as \<^verbatim>\<open>1e999\<close>. A finite value is
  the real number it stands for: the rounding of an arithmetic result to the nearest
  double, the overflow of a finite result and the sign of zero are not represented.
\<close>

datatype pyfloat = Finite real | PosInf | NegInf | NaN

text \<open>
  Comparison and arithmetic as IEEE 754 and Python have them: every comparison with NaN is
  false (also \<^verbatim>\<open>nan == nan\<close>), NaN propagates through arithmetic, and
  \<^verbatim>\<open>inf - inf\<close> and \<^verbatim>\<open>inf * 0\<close> are NaN.
\<close>

fun float_lt :: "pyfloat \<Rightarrow> pyfloat \<Rightarrow> bool" where
  "float_lt (Finite x) (Finite y) = (x < y)"
| "float_lt (Finite x) PosInf = True"
| "float_lt (Finite x) NegInf = False"
| "float_lt (Finite x) NaN = False"
| "float_lt PosInf b = False"
| "float_lt NegInf (Finite y) = True"
| "float_lt NegInf PosInf = True"
| "float_lt NegInf NegInf = False"
| "float_lt NegInf NaN = False"
| "float_lt NaN b = False"

fun float_le :: "pyfloat \<Rightarrow> pyfloat \<Rightarrow> bool" where
  "float_le (Finite x) (Finite y) = (x \<le> y)"
| "float_le (Finite x) PosInf = True"
| "float_le (Finite x) NegInf = False"
| "float_le (Finite x) NaN = False"
| "float_le PosInf (Finite y) = False"
| "float_le PosInf PosInf = True"
| "float_le PosInf NegInf = False"
| "float_le PosInf NaN = False"
| "float_le NegInf (Finite y) = True"
| "float_le NegInf PosInf = True"
| "float_le NegInf NegInf = True"
| "float_le NegInf NaN = False"
| "float_le NaN b = False"

text \<open>Python's \<^verbatim>\<open>==\<close> on floats.\<close>

definition float_eq :: "pyfloat \<Rightarrow> pyfloat \<Rightarrow> bool" where
  "float_eq a b \<longleftrightarrow> a \<noteq> NaN \<and> a = b"

fun float_add :: "pyfloat \<Rightarrow> pyfloat \<Rightarrow> pyfloat" where
  "float_add (Finite x) (Finite y) = Finite (x + y)"
| "float_add (Finite x) PosInf = PosInf"
| "float_add (Finite x) NegInf = NegInf"
| "float_add (Finite x) NaN = NaN"
| "float_add PosInf (Finite y) = PosInf"
| "float_add PosInf PosInf = PosInf"
| "float_add PosInf NegInf = NaN"
| "float_add PosInf NaN = NaN"
| "float_add NegInf (Finite y) = NegInf"
| "float_add NegInf PosInf = NaN"
| "float_add NegInf NegInf = NegInf"
| "float_add NegInf NaN = NaN"
| "float_add NaN b = NaN"

fun float_mul :: "pyfloat \<Rightarrow> pyfloat \<Rightarrow> pyfloat" where
  "float_mul (Finite x) (Finite y) = Finite (x * y)"
| "float_mul (Finite x) PosInf = (if x > 0 then PosInf else if x < 0 then NegInf else NaN)"
| "float_mul (Finite x) NegInf = (if x > 0 then NegInf else if x < 0 then PosInf else NaN)"
| "float_mul (Finite x) NaN = NaN"
| "float_mul PosInf (Finite y) = (if y > 0 then PosInf else if y < 0 then NegInf else NaN)"
| "float_mul PosInf PosInf = PosInf"
| "float_mul PosInf NegInf = NegInf"
| "float_mul PosInf NaN = NaN"
| "float_mul NegInf (Finite y) = (if y > 0 then NegInf else if y < 0 then PosInf else NaN)"
| "float_mul NegInf PosInf = NegInf"
| "float_mul NegInf NegInf = PosInf"
| "float_mul NegInf NaN = NaN"
| "float_mul NaN b = NaN"

text \<open>
  The operators \<open><\<close>, \<open>\<le>\<close>, \<open>+\<close> and \<open>*\<close> on floats are these functions, and \<open>0\<close> is
  the float \<^verbatim>\<open>0.0\<close>. (The order is not a partial order: \<open>a \<le> a\<close> fails for NaN.)
\<close>

instantiation pyfloat :: "{zero, ord, plus, times}"
begin

definition zero_pyfloat_def: "(0 :: pyfloat) = Finite 0"

definition less_pyfloat_def: "(a :: pyfloat) < b \<longleftrightarrow> float_lt a b"

definition less_eq_pyfloat_def: "(a :: pyfloat) \<le> b \<longleftrightarrow> float_le a b"

definition plus_pyfloat_def: "(a :: pyfloat) + b = float_add a b"

definition times_pyfloat_def: "(a :: pyfloat) * b = float_mul a b"

instance ..

end

lemmas float_ops =
  zero_pyfloat_def less_pyfloat_def less_eq_pyfloat_def plus_pyfloat_def times_pyfloat_def

text \<open>
  An \<^verbatim>\<open>int\<close> in a comparison with a float: Python compares the exact values.
\<close>

definition float_of_int :: "int \<Rightarrow> pyfloat" where
  "float_of_int i = Finite (of_int i)"


section \<open>Data model (labellint.formats)\<close>

text \<open>
  The value tree that \<^verbatim>\<open>json.loads\<close> hands to the schema layer. Python keeps
  \<^verbatim>\<open>int\<close> and \<^verbatim>\<open>float\<close> apart, so the tree does too. An object is its list of
  key/value pairs.
\<close>

datatype json =
    JNull
  | JBool bool
  | JInt int
  | JFloat pyfloat
  | JStr string
  | JArr "json list"
  | JObj "(string \<times> json) list"

text \<open>\<^verbatim>\<open>segmentation: Union[List[Any], Dict[str, Any]] = []\<close>\<close>

datatype segmentation =
    SegList "json list"
  | SegDict "(string \<times> json) list"

record COCOInfo =
  info_year :: "int option"
  info_version :: "string option"
  info_description :: "string option"
  info_contributor :: "string option"
  info_url :: "string option"
  info_date_created :: "string option"
  info_extra :: "(string \<times> json) list"

record COCOLicense =
  license_id :: int
  license_name :: string
  license_url :: "string option"

record COCOImage =
  img_id :: int
  img_width :: int
  img_height :: int
  img_file_name :: string
  img_license :: "int option"
  img_flickr_url :: "string option"
  img_coco_url :: "string option"
  img_date_captured :: "string option"

record COCOAnnotation =
  ann_id :: int
  ann_image_id :: int
  ann_category_id :: int
  ann_segmentation :: segmentation
  ann_area :: pyfloat
  ann_bbox :: "pyfloat list"
  ann_iscrowd :: int

record COCOCategory =
  cat_id :: int
  cat_name :: string
  cat_supercategory :: "string option"

record COCOData =
  info :: COCOInfo
  licenses :: "COCOLicense list"
  images :: "COCOImage list"
  annotations :: "COCOAnnotation list"
  categories :: "COCOCategory list"

section \<open>Formatting of integers in findings\<close>

text \<open>Python's \<^verbatim>\<open>str(n)\<close> for an integer, as the f-strings of the rules use it.\<close>

definition digit_char :: "nat \<Rightarrow> char" where
  "digit_char d = ''0123456789'' ! d"

fun str_nat :: "nat \<Rightarrow> string" where
  "str_nat n = (if n < 10 then [digit_char n] else str_nat (n div 10) @ [digit_char (n mod 10)])"

declare str_nat.simps [simp del]

lemma str_nat_small: "n < 10 \<Longrightarrow> str_nat n = [digit_char n]"
  by (simp add: str_nat.simps)

lemma str_nat_big: "\<not> n < 10 \<Longrightarrow> str_nat n = str_nat (n div 10) @ [digit_char (n mod 10)]"
  by (subst str_nat.simps) simp

definition str_int :: "int \<Rightarrow> string" where
  "str_int i = (if i < 0 then ''-'' @ str_nat (nat (- i)) else str_nat (nat i))"

lemmas str_eval = str_int_def str_nat_small str_nat_big digit_char_def

section \<open>Schema validation (the pydantic models of labellint.formats)\<close>

text \<open>
  An instance of Python's \<^verbatim>\<open>Exception\<close> class, by the name of its class.
\<close>

datatype py_exception = PyException string

definition JSONDecodeError :: py_exception where
  "JSONDecodeError = PyException ''JSONDecodeError''"

text \<open>
  What the code takes from outside the repository, as parameters: reading the file
  (\<^verbatim>\<open>Path.read_text\<close>, which returns the text or raises), the JSON parser
  (\<^verbatim>\<open>json.loads\<close>, which returns the value tree or raises: \<^verbatim>\<open>JSONDecodeError\<close> on a
  syntax error, and on syntactically valid text \<^verbatim>\<open>RecursionError\<close> when the nesting is
  too deep for the interpreter or \<^verbatim>\<open>ValueError\<close> when an integer has more digits than
  the interpreter's limit), pydantic's coercion of one value to an \<^verbatim>\<open>int\<close> or a
  \<^verbatim>\<open>float\<close> field (\<open>None\<close> when the value is refused; a float field accepts the
  infinities and NaN unless configured otherwise, and these models are not), and
  pydantic's test of a float against the bound of \<^verbatim>\<open>Field(ge=...)\<close> (on values other
  than NaN it is \<open>\<ge>\<close>; what it answers on NaN is left to the library).
\<close>

record library =
  read_text :: "string \<Rightarrow> py_exception + string"
  json_loads :: "string \<Rightarrow> py_exception + json"
  as_int :: "json \<Rightarrow> int option"
  as_float :: "json \<Rightarrow> pyfloat option"
  float_ge :: "pyfloat \<Rightarrow> pyfloat \<Rightarrow> bool"

text \<open>
  A validator returns the validated value, or \<open>None\<close> where pydantic raises
  \<^verbatim>\<open>ValidationError\<close>. \<open>required\<close> is a field with no default, \<open>optional\<close> a field
  \<^verbatim>\<open>Optional[T] = None\<close>, \<open>no_extra\<close> the check of \<^verbatim>\<open>extra="forbid"\<close>.
\<close>

definition validate_str :: "json \<Rightarrow> string option" where
  "validate_str j = (case j of JStr s \<Rightarrow> Some s | _ \<Rightarrow> None)"

definition required :: "(json \<Rightarrow> 'a option) \<Rightarrow> (string \<times> json) list \<Rightarrow> string \<Rightarrow> 'a option" where
  "required v kvs k = (case map_of kvs k of None \<Rightarrow> None | Some j \<Rightarrow> v j)"

definition optional :: "(json \<Rightarrow> 'a option) \<Rightarrow> (string \<times> json) list \<Rightarrow> string \<Rightarrow> 'a option option" where
  "optional v kvs k =
     (case map_of kvs k of
        None \<Rightarrow> Some None
      | Some JNull \<Rightarrow> Some None
      | Some j \<Rightarrow> map_option Some (v j))"

definition no_extra :: "string list \<Rightarrow> (string \<times> json) list \<Rightarrow> bool" where
  "no_extra names kvs = list_all (\<lambda>k. k \<in> set names) (map fst kvs)"

definition validate_list :: "(json \<Rightarrow> 'a option) \<Rightarrow> json \<Rightarrow> 'a list option" where
  "validate_list v j = (case j of JArr xs \<Rightarrow> those (map v xs) | _ \<Rightarrow> None)"

subsection \<open>COCOInfo\<close>

definition info_fields :: "string list" where
  "info_fields = [''year'', ''version'', ''description'', ''contributor'', ''url'', ''date_created'']"

definition validate_info :: "library \<Rightarrow> json \<Rightarrow> COCOInfo option" where
  "validate_info lib j =
     (case j of
        JObj kvs \<Rightarrow>
          do {
            year \<leftarrow> optional (as_int lib) kvs ''year'';
            version \<leftarrow> optional validate_str kvs ''version'';
            description \<leftarrow> optional validate_str kvs ''description'';
            contributor \<leftarrow> optional validate_str kvs ''contributor'';
            url \<leftarrow> optional validate_str kvs ''url'';
            date_created \<leftarrow> optional validate_str kvs ''date_created'';
            Some \<lparr>info_year = year, info_version = version, info_description = description,
                  info_contributor = contributor, info_url = url, info_date_created = date_created,
                  info_extra = filter (\<lambda>kv. fst kv \<notin> set info_fields) kvs\<rparr>
          }
      | _ \<Rightarrow> None)"

subsection \<open>COCOLicense\<close>

definition license_fields :: "string list" where
  "license_fields = [''id'', ''name'', ''url'']"

definition validate_license :: "library \<Rightarrow> json \<Rightarrow> COCOLicense option" where
  "validate_license lib j =
     (case j of
        JObj kvs \<Rightarrow>
          if \<not> no_extra license_fields kvs then None
          else do {
            i \<leftarrow> required (as_int lib) kvs ''id'';
            name \<leftarrow> required validate_str kvs ''name'';
            url \<leftarrow> optional validate_str kvs ''url'';
            Some \<lparr>license_id = i, license_name = name, license_url = url\<rparr>
          }
      | _ \<Rightarrow> None)"

subsection \<open>COCOImage\<close>

definition image_fields :: "string list" where
  "image_fields =
     [''id'', ''width'', ''height'', ''file_name'', ''license'', ''flickr_url'', ''coco_url'',
      ''date_captured'']"

text \<open>\<^verbatim>\<open>Field(gt=0)\<close>\<close>

definition gt0 :: "int \<Rightarrow> int option" where
  "gt0 i = (if i > 0 then Some i else None)"

definition validate_image :: "library \<Rightarrow> json \<Rightarrow> COCOImage option" where
  "validate_image lib j =
     (case j of
        JObj kvs \<Rightarrow>
          if \<not> no_extra image_fields kvs then None
          else do {
            i \<leftarrow> required (as_int lib) kvs ''id'';
            width \<leftarrow> required (\<lambda>v. as_int lib v \<bind> gt0) kvs ''width'';
            height \<leftarrow> required (\<lambda>v. as_int lib v \<bind> gt0) kvs ''height'';
            file_name \<leftarrow> required validate_str kvs ''file_name'';
            license \<leftarrow> optional (as_int lib) kvs ''license'';
            flickr_url \<leftarrow> optional validate_str kvs ''flickr_url'';
            coco_url \<leftarrow> optional validate_str kvs ''coco_url'';
            date_captured \<leftarrow> optional validate_str kvs ''date_captured'';
            Some \<lparr>img_id = i, img_width = width, img_height = height, img_file_name = file_name,
                  img_license = license, img_flickr_url = flickr_url, img_coco_url = coco_url,
                  img_date_captured = date_captured\<rparr>
          }
      | _ \<Rightarrow> None)"

subsection \<open>COCOAnnotation\<close>

definition annotation_fields :: "string list" where
  "annotation_fields =
     [''id'', ''image_id'', ''category_id'', ''segmentation'', ''area'', ''bbox'', ''iscrowd'']"

text \<open>
  \<^verbatim>\<open>segmentation: Union[List[Any], Dict[str, Any]] = []\<close>: a list or a dict as it
  comes, the empty list when the key is absent, an error for any other value.
\<close>

definition validate_segmentation :: "(string \<times> json) list \<Rightarrow> segmentation option" where
  "validate_segmentation kvs =
     (case map_of kvs ''segmentation'' of
        None \<Rightarrow> Some (SegList [])
      | Some (JArr xs) \<Rightarrow> Some (SegList xs)
      | Some (JObj m) \<Rightarrow> Some (SegDict m)
      | Some _ \<Rightarrow> None)"

text \<open>\<^verbatim>\<open>area: float = Field(ge=0.0)\<close>\<close>

definition validate_area :: "library \<Rightarrow> json \<Rightarrow> pyfloat option" where
  "validate_area lib j = as_float lib j \<bind> (\<lambda>a. if float_ge lib a 0 then Some a else None)"

text \<open>
  The field validator of \<^verbatim>\<open>bbox\<close>. It unpacks four values; a \<^verbatim>\<open>ValueError\<close>
  raised in a validator is a validation error. The test is \<^verbatim>\<open>w < 0 or h < 0\<close> on
  floats: it is false when \<open>w\<close> or \<open>h\<close> is NaN, so a NaN passes.
\<close>

definition bbox_must_have_positive_dimensions :: "pyfloat list \<Rightarrow> pyfloat list option" where
  "bbox_must_have_positive_dimensions v =
     (case v of
        [x, y, w, h] \<Rightarrow> if w < 0 \<or> h < 0 then None else Some v
      | _ \<Rightarrow> None)"

text \<open>
  \<^verbatim>\<open>bbox: List[float] = Field(min_length=4, max_length=4)\<close>, then the field
  validator.
\<close>

definition validate_bbox :: "library \<Rightarrow> json \<Rightarrow> pyfloat list option" where
  "validate_bbox lib j =
     validate_list (as_float lib) j \<bind>
       (\<lambda>v. if length v < 4 \<or> length v > 4 then None else bbox_must_have_positive_dimensions v)"

text \<open>\<^verbatim>\<open>iscrowd: int = Field(ge=0, le=1)\<close>\<close>

definition validate_iscrowd :: "library \<Rightarrow> json \<Rightarrow> int option" where
  "validate_iscrowd lib j = as_int lib j \<bind> (\<lambda>i. if i \<ge> 0 \<and> i \<le> 1 then Some i else None)"

definition validate_annotation :: "library \<Rightarrow> json \<Rightarrow> COCOAnnotation option" where
  "validate_annotation lib j =
     (case j of
        JObj kvs \<Rightarrow>
          if \<not> no_extra annotation_fields kvs then None
          else do {
            i \<leftarrow> required (as_int lib) kvs ''id'';
            image_id \<leftarrow> required (as_int lib) kvs ''image_id'';
            category_id \<leftarrow> required (as_int lib) kvs ''category_id'';
            seg \<leftarrow> validate_segmentation kvs;
            area \<leftarrow> required (validate_area lib) kvs ''area'';
            bbox \<leftarrow> required (validate_bbox lib) kvs ''bbox'';
            iscrowd \<leftarrow> required (validate_iscrowd lib) kvs ''iscrowd'';
            Some \<lparr>ann_id = i, ann_image_id = image_id, ann_category_id = category_id,
                  ann_segmentation = seg, ann_area = area, ann_bbox = bbox, ann_iscrowd = iscrowd\<rparr>
          }
      | _ \<Rightarrow> None)"

subsection \<open>COCOCategory\<close>

definition category_fields :: "string list" where
  "category_fields = [''id'', ''name'', ''supercategory'']"

definition validate_category :: "library \<Rightarrow> json \<Rightarrow> COCOCategory option" where
  "validate_category lib j =
     (case j of
        JObj kvs \<Rightarrow>
          if \<not> no_extra category_fields kvs then None
          else do {
            i \<leftarrow> required (as_int lib) kvs ''id'';
            name \<leftarrow> required validate_str kvs ''name'';
            supercategory \<leftarrow> optional validate_str kvs ''supercategory'';
            Some \<lparr>cat_id = i, cat_name = name, cat_supercategory = supercategory\<rparr>
          }
      | _ \<Rightarrow> None)"

subsection \<open>COCOData\<close>

definition data_fields :: "string list" where
  "data_fields = [''info'', ''licenses'', ''images'', ''annotations'', ''categories'']"

text \<open>
  \<^verbatim>\<open>COCOData.model_validate(data)\<close> on the value \<^verbatim>\<open>json.loads\<close> returned: anything
  but a dict is refused.
\<close>

definition model_validate :: "library \<Rightarrow> json \<Rightarrow> COCOData option" where
  "model_validate lib j =
     (case j of
        JObj kvs \<Rightarrow>
          if \<not> no_extra data_fields kvs then None
          else do {
            i \<leftarrow> required (validate_info lib) kvs ''info'';
            ls \<leftarrow> required (validate_list (validate_license lib)) kvs ''licenses'';
            imgs \<leftarrow> required (validate_list (validate_image lib)) kvs ''images'';
            anns \<leftarrow> required (validate_list (validate_annotation lib)) kvs ''annotations'';
            cats \<leftarrow> required (validate_list (validate_category lib)) kvs ''categories'';
            Some \<lparr>info = i, licenses = ls, images = imgs, annotations = anns, categories = cats\<rparr>
          }
      | _ \<Rightarrow> None)"

subsection \<open>parse_coco\<close>

text \<open>
  What a call of \<^verbatim>\<open>parse_coco\<close> raises: one of its two classes of \<^verbatim>\<open>ParseError\<close>
  (their message strings are not modelled), or an exception of the library that none of
  its \<^verbatim>\<open>except\<close> clauses catches and that reaches the caller as it is.
\<close>

datatype raised = FileAccessError | InvalidFormatError | Unhandled py_exception

fun is_ParseError :: "raised \<Rightarrow> bool" where
  "is_ParseError FileAccessError = True"
| "is_ParseError InvalidFormatError = True"
| "is_ParseError (Unhandled e) = False"

text \<open>
  The three stages. Stage 1 ends with \<^verbatim>\<open>except Exception\<close>: every exception of the read
  becomes a \<^verbatim>\<open>FileAccessError\<close>. Stage 2 has the one clause
  \<^verbatim>\<open>except json.JSONDecodeError\<close>: that exception becomes an \<^verbatim>\<open>InvalidFormatError\<close>,
  and any other exception of \<^verbatim>\<open>json.loads\<close> leaves \<^verbatim>\<open>parse_coco\<close> uncaught. Stage 3
  turns pydantic's \<^verbatim>\<open>ValidationError\<close> into an \<^verbatim>\<open>InvalidFormatError\<close>.
\<close>

definition parse_coco :: "library \<Rightarrow> string \<Rightarrow> raised + COCOData" where
  "parse_coco lib filepath =
     (case read_text lib filepath of
        Inl e \<Rightarrow> Inl FileAccessError
      | Inr raw_content \<Rightarrow>
          (case json_loads lib raw_content of
             Inl e \<Rightarrow> if e = JSONDecodeError then Inl InvalidFormatError else Inl (Unhandled e)
           | Inr j \<Rightarrow>
               (case model_validate lib j of
                  None \<Rightarrow> Inl InvalidFormatError
                | Some coco_data \<Rightarrow> Inr coco_data)))"

section \<open>Formatting of floats in findings\<close>

text \<open>
  Python's fixed-point format \<^verbatim>\<open>{v:.nf}\<close>: on a finite value, round half to even at
  the \<open>n\<close>-th decimal, sign first; \<^verbatim>\<open>inf\<close>, \<^verbatim>\<open>-inf\<close> and \<^verbatim>\<open>nan\<close> otherwise. The
  rules below do not depend on it (they take the formatter as a parameter); it is the
  formatter of the worked examples.
\<close>

definition round_half_even :: "real \<Rightarrow> int" where
  "round_half_even r =
     (let f = \<lfloor>r\<rfloor> in
      if r - of_int f < 1 / 2 then f
      else if r - of_int f > 1 / 2 then f + 1
      else if even f then f else f + 1)"

definition zero_pad :: "nat \<Rightarrow> string \<Rightarrow> string" where
  "zero_pad n s = replicate (n - length s) (CHR ''0'') @ s"

definition fixed_point :: "nat \<Rightarrow> real \<Rightarrow> string" where
  "fixed_point n v =
     (let q = round_half_even (\<bar>v\<bar> * 10 ^ n) in
      (if v < 0 then ''-'' else []) @ str_int (q div 10 ^ n)
        @ (if n = 0 then [] else ''.'' @ zero_pad n (str_int (q mod 10 ^ n))))"

fun py_fixed :: "nat \<Rightarrow> pyfloat \<Rightarrow> string" where
  "py_fixed n (Finite v) = fixed_point n v"
| "py_fixed n PosInf = ''inf''"
| "py_fixed n NegInf = ''-inf''"
| "py_fixed n NaN = ''nan''"

section \<open>Rules (labellint.rules)\<close>

subsection \<open>check_relation_images_without_annotations\<close>

definition no_annotations_finding :: "COCOImage \<Rightarrow> string" where
  "no_annotations_finding img =
     ''Image '' @ [CHR 0x27] @ img_file_name img @ [CHR 0x27] @ '' (ID '' @ str_int (img_id img)
       @ '') has no annotations.''"

text \<open>The \<^verbatim>\<open>for image in data.images\<close> loop, with \<^verbatim>\<open>findings\<close> as accumulator.\<close>

fun images_without_annotations_loop :: "int set \<Rightarrow> COCOImage list \<Rightarrow> string list \<Rightarrow> string list" where
  "images_without_annotations_loop annotated_image_ids [] findings = findings"
| "images_without_annotations_loop annotated_image_ids (img # rest) findings =
     images_without_annotations_loop annotated_image_ids rest
       (if img_id img \<notin> annotated_image_ids
        then findings @ [no_annotations_finding img]
        else findings)"

definition check_relation_images_without_annotations :: "COCOData \<Rightarrow> string list" where
  "check_relation_images_without_annotations data =
     (if annotations data = [] then []
      else images_without_annotations_loop (set (map ann_image_id (annotations data))) (images data) [])"

subsection \<open>Exceptions and tuple unpacking inside a rule\<close>

text \<open>A rule either returns its findings or raises an exception.\<close>

type_synonym rule_result = "py_exception + string list"

text \<open>
  \<^verbatim>\<open>x, y, w, h = ann.bbox\<close>: anything but four elements raises \<^verbatim>\<open>ValueError\<close>.
\<close>

definition unpack_bbox :: "pyfloat list \<Rightarrow> py_exception + (pyfloat \<times> pyfloat \<times> pyfloat \<times> pyfloat)" where
  "unpack_bbox v = (case v of [x, y, w, h] \<Rightarrow> Inr (x, y, w, h) | _ \<Rightarrow> Inl (PyException ''ValueError''))"

text \<open>
  A dict comprehension \<^verbatim>\<open>{key(e): e for e in es}\<close>: a later element replaces an
  earlier one under the same key.
\<close>

definition dict_by :: "('a \<Rightarrow> int) \<Rightarrow> 'a list \<Rightarrow> (int \<rightharpoonup> 'a)" where
  "dict_by key es = fold (\<lambda>e m. m(key e \<mapsto> e)) es Map.empty"

text \<open>
  The float format specs \<^verbatim>\<open>{v:.1f}\<close> and \<^verbatim>\<open>{v:.2f}\<close> of the findings are
  Python's own; the rules take the formatter as the parameter \<open>fmt\<close>, applied to the
  number of decimals and the value.
\<close>

type_synonym float_format = "nat \<Rightarrow> pyfloat \<Rightarrow> string"

subsection \<open>check_geometry_bbox_out_of_bounds\<close>

definition out_of_bounds_finding ::
  "float_format \<Rightarrow> COCOAnnotation \<Rightarrow> COCOImage \<Rightarrow> pyfloat \<Rightarrow> pyfloat \<Rightarrow> string" where
  "out_of_bounds_finding fmt ann img x2 y2 =
     ''Annotation (ID '' @ str_int (ann_id ann) @ '') on image '' @ [CHR 0x27] @ img_file_name img
       @ [CHR 0x27] @ '' (ID '' @ str_int (ann_image_id ann) @ '') is out of bounds. ''
       @ ''Bbox [x2='' @ fmt 1 x2 @ '', y2='' @ fmt 1 y2 @ ''] vs. Image [w=''
       @ str_int (img_width img) @ '', h='' @ str_int (img_height img) @ ''].''"

fun bbox_out_of_bounds_loop ::
  "float_format \<Rightarrow> (int \<rightharpoonup> COCOImage) \<Rightarrow> COCOAnnotation list \<Rightarrow> string list \<Rightarrow> rule_result" where
  "bbox_out_of_bounds_loop fmt images_by_id [] findings = Inr findings"
| "bbox_out_of_bounds_loop fmt images_by_id (ann # rest) findings =
     (case images_by_id (ann_image_id ann) of
        None \<Rightarrow> bbox_out_of_bounds_loop fmt images_by_id rest findings
      | Some img \<Rightarrow>
          (case unpack_bbox (ann_bbox ann) of
             Inl e \<Rightarrow> Inl e
           | Inr (x1, y1, w, h) \<Rightarrow>
               (let x2 = x1 + w; y2 = y1 + h in
                if x1 < 0 \<or> y1 < 0 \<or> x2 > float_of_int (img_width img) \<or> y2 > float_of_int (img_height img)
                then bbox_out_of_bounds_loop fmt images_by_id rest
                       (findings @ [out_of_bounds_finding fmt ann img x2 y2])
                else bbox_out_of_bounds_loop fmt images_by_id rest findings)))"

definition check_geometry_bbox_out_of_bounds :: "float_format \<Rightarrow> COCOData \<Rightarrow> rule_result" where
  "check_geometry_bbox_out_of_bounds fmt data =
     bbox_out_of_bounds_loop fmt (dict_by img_id (images data)) (annotations data) []"

subsection \<open>check_attribute_area_bbox_mismatch\<close>

text \<open>
  \<^verbatim>\<open>numpy.isclose(a, b, rtol, atol)\<close> on two scalars, as numpy documents it: when both
  are finite it is \<^verbatim>\<open>|a - b| <= atol + rtol * |b|\<close>; when one of them is not, it is
  \<^verbatim>\<open>a == b\<close>, so an infinity is close to itself only and NaN to nothing. The rule
  passes \<^verbatim>\<open>rtol=1e-3\<close> and leaves \<^verbatim>\<open>atol\<close> at its default \<^verbatim>\<open>1e-8\<close>.
\<close>

fun isclose :: "pyfloat \<Rightarrow> pyfloat \<Rightarrow> real \<Rightarrow> real \<Rightarrow> bool" where
  "isclose (Finite a) (Finite b) rtol atol = (\<bar>a - b\<bar> \<le> atol + rtol * \<bar>b\<bar>)"
| "isclose a b rtol atol = float_eq a b"

definition default_atol :: real where
  "default_atol = 1 / 100000000"

text \<open>Truthiness, \<^verbatim>\<open>isinstance(_, list)\<close> and \<^verbatim>\<open>len\<close> of a segmentation value.\<close>

fun seg_truthy :: "segmentation \<Rightarrow> bool" where
  "seg_truthy (SegList xs) = (xs \<noteq> [])"
| "seg_truthy (SegDict kvs) = (kvs \<noteq> [])"

fun seg_is_list :: "segmentation \<Rightarrow> bool" where
  "seg_is_list (SegList xs) = True"
| "seg_is_list (SegDict kvs) = False"

fun seg_len :: "segmentation \<Rightarrow> nat" where
  "seg_len (SegList xs) = length xs"
| "seg_len (SegDict kvs) = length kvs"

definition area_mismatch_finding :: "float_format \<Rightarrow> COCOAnnotation \<Rightarrow> pyfloat \<Rightarrow> string" where
  "area_mismatch_finding fmt ann bbox_area =
     ''Annotation (ID '' @ str_int (ann_id ann) @ '') has a mismatched area. ''
       @ ''Bbox area is '' @ fmt 2 bbox_area @ '', but '' @ [CHR 0x27] @ ''area'' @ [CHR 0x27]
       @ '' attribute is '' @ fmt 2 (ann_area ann) @ ''.''"

fun area_bbox_mismatch_loop :: "float_format \<Rightarrow> COCOAnnotation list \<Rightarrow> string list \<Rightarrow> rule_result" where
  "area_bbox_mismatch_loop fmt [] findings = Inr findings"
| "area_bbox_mismatch_loop fmt (ann # rest) findings =
     (if seg_truthy (ann_segmentation ann) \<and> seg_is_list (ann_segmentation ann)
         \<and> seg_len (ann_segmentation ann) > 0
      then area_bbox_mismatch_loop fmt rest findings
      else
        (case unpack_bbox (ann_bbox ann) of
           Inl e \<Rightarrow> Inl e
         | Inr (x, y, w, h) \<Rightarrow>
             (let bbox_area = w * h in
              if \<not> isclose bbox_area (ann_area ann) (1 / 1000) default_atol
              then area_bbox_mismatch_loop fmt rest (findings @ [area_mismatch_finding fmt ann bbox_area])
              else area_bbox_mismatch_loop fmt rest findings)))"

definition check_attribute_area_bbox_mismatch :: "float_format \<Rightarrow> COCOData \<Rightarrow> rule_result" where
  "check_attribute_area_bbox_mismatch fmt data = area_bbox_mismatch_loop fmt (annotations data) []"

subsection \<open>check_statistical_class_distribution_imbalance\<close>

text \<open>
  \<^verbatim>\<open>collections.Counter\<close> over an iterable: a dict from element to count, keys in
  the order of first occurrence. The threshold \<^verbatim>\<open>max(10, total_annotations * 0.001)\<close>
  is computed from the length of a list, so it is a finite number, here a real.
\<close>

fun counter_add :: "int \<Rightarrow> (int \<times> nat) list \<Rightarrow> (int \<times> nat) list" where
  "counter_add k [] = [(k, 1)]"
| "counter_add k ((k', c) # rest) =
     (if k' = k then (k', c + 1) # rest else (k', c) # counter_add k rest)"

definition Counter :: "int list \<Rightarrow> (int \<times> nat) list" where
  "Counter xs = fold counter_add xs []"

definition imbalance_finding :: "string \<Rightarrow> nat \<Rightarrow> string" where
  "imbalance_finding category_name count =
     ''Severe class imbalance: Category '' @ [CHR 0x27] @ category_name @ [CHR 0x27]
       @ '' has only '' @ str_nat count @ '' annotations.''"

fun class_imbalance_loop ::
  "real \<Rightarrow> (int \<rightharpoonup> COCOCategory) \<Rightarrow> (int \<times> nat) list \<Rightarrow> string list \<Rightarrow> string list" where
  "class_imbalance_loop threshold categories_by_id [] findings = findings"
| "class_imbalance_loop threshold categories_by_id ((cid, count) # rest) findings =
     (if real count < threshold
      then (case categories_by_id cid of
              Some category \<Rightarrow>
                class_imbalance_loop threshold categories_by_id rest
                  (findings @ [imbalance_finding (cat_name category) count])
            | None \<Rightarrow> class_imbalance_loop threshold categories_by_id rest findings)
      else class_imbalance_loop threshold categories_by_id rest findings)"

definition check_statistical_class_distribution_imbalance :: "COCOData \<Rightarrow> string list" where
  "check_statistical_class_distribution_imbalance data =
     (let total_annotations = length (annotations data) in
      if total_annotations = 0 \<or> total_annotations < 50 then []
      else
        (let category_counts = Counter (map ann_category_id (annotations data));
             categories_by_id = dict_by cat_id (categories data);
             threshold = max 10 (real total_annotations * (1 / 1000))
         in class_imbalance_loop threshold categories_by_id category_counts []))"

section \<open>The engine (labellint.core)\<close>

text \<open>
  A rule as the engine sees it: the function's \<^verbatim>\<open>__name__\<close> and the function.
  \<^verbatim>\<open>rules.get_all_rules()\<close> returns the module's \<^verbatim>\<open>check_\<close> functions sorted by
  name; these are their names in that order.
\<close>

type_synonym rule = "string \<times> (COCOData \<Rightarrow> rule_result)"

definition registered_rule_names :: "string list" where
  "registered_rule_names =
     [''check_attribute_area_bbox_mismatch'',
      ''check_category_case_consistency'',
      ''check_category_duplicate_ids'',
      ''check_category_duplicate_names'',
      ''check_geometry_bbox_out_of_bounds'',
      ''check_geometry_zero_area_bboxes'',
      ''check_relation_images_without_annotations'',
      ''check_relation_unmatched_annotations'',
      ''check_relation_unmatched_category'',
      ''check_statistical_bbox_aspect_ratio_outliers'',
      ''check_statistical_class_distribution_imbalance'']"

record ScanResult =
  data :: COCOData
  findings :: "(string \<times> string list) list"
  total_findings :: int

definition execution_error_key :: "string \<Rightarrow> string" where
  "execution_error_key rule_name = rule_name @ ''_execution_error''"

definition error_finding :: "string list" where
  "error_finding = [''Rule execution failed with an internal error.'']"

text \<open>
  Stage 3 of \<^verbatim>\<open>run_scan\<close>: the loop over the rules. The state is the dict
  \<^verbatim>\<open>results\<close> (an association list in insertion order; an assignment to a key that is
  present replaces its value in place, as \<^verbatim>\<open>results[key] = value\<close> does) and the
  running \<^verbatim>\<open>total_findings\<close>. The \<^verbatim>\<open>except Exception\<close> branch is the \<open>Inl\<close> case.
\<close>

fun run_rules ::
  "COCOData \<Rightarrow> rule list \<Rightarrow> (string \<times> string list) list \<times> int \<Rightarrow> (string \<times> string list) list \<times> int" where
  "run_rules d [] st = st"
| "run_rules d ((rule_name, rule_func) # rest) (results, tot) =
     (case rule_func d of
        Inr fs \<Rightarrow>
          (if fs \<noteq> []
           then run_rules d rest (AList.update rule_name fs results, tot + int (length fs))
           else run_rules d rest (results, tot))
      | Inl e \<Rightarrow>
          run_rules d rest (AList.update (execution_error_key rule_name) error_finding results, tot + 1))"

text \<open>Stages 3 and 4: from the validated document to the \<^verbatim>\<open>ScanResult\<close>.\<close>

definition execute_rules :: "COCOData \<Rightarrow> rule list \<Rightarrow> ScanResult" where
  "execute_rules d all_rules =
     (let (results, tot) = run_rules d all_rules ([], 0)
      in \<lparr>data = d, findings = results, total_findings = tot\<rparr>)"

text \<open>
  \<^verbatim>\<open>run_scan\<close>: a \<^verbatim>\<open>ParseError\<close> of stage 1 is raised again (\<^verbatim>\<open>except ParseError: raise\<close>),
  any other exception of \<^verbatim>\<open>parse_coco\<close> passes through uncaught, and in both cases no
  rule runs; otherwise the rules that \<^verbatim>\<open>rules.get_all_rules()\<close> returned run on the
  document.
\<close>

definition run_scan :: "library \<Rightarrow> rule list \<Rightarrow> string \<Rightarrow> raised + ScanResult" where
  "run_scan lib all_rules filepath =
     (case parse_coco lib filepath of
        Inl e \<Rightarrow> Inl e
      | Inr d \<Rightarrow> Inr (execute_rules d all_rules))"

section \<open>Properties of the rules\<close>

subsection \<open>Images without annotations\<close>

lemma images_without_annotations_loop_filter:
  "images_without_annotations_loop ids imgs acc =
     acc @ map no_annotations_finding (filter (\<lambda>img. img_id img \<notin> ids) imgs)"
  by (induction imgs arbitrary: acc) auto

definition example_image :: "int \<Rightarrow> string \<Rightarrow> COCOImage" where
  "example_image i name =
     \<lparr>img_id = i, img_width = 800, img_height = 600, img_file_name = name, img_license = None,
      img_flickr_url = None, img_coco_url = None, img_date_captured = None\<rparr>"

text \<open>An annotation with finite numbers and no segmentation.\<close>

definition example_annotation :: "int \<Rightarrow> int \<Rightarrow> int \<Rightarrow> real list \<Rightarrow> real \<Rightarrow> COCOAnnotation" where
  "example_annotation i im c box area =
     \<lparr>ann_id = i, ann_image_id = im, ann_category_id = c, ann_segmentation = SegList [],
      ann_area = Finite area, ann_bbox = map Finite box, ann_iscrowd = 0\<rparr>"

definition example_info :: COCOInfo where
  "example_info =
     \<lparr>info_year = None, info_version = None, info_description = None, info_contributor = None,
      info_url = None, info_date_created = None, info_extra = []\<rparr>"

definition example_data :: "COCOImage list \<Rightarrow> COCOAnnotation list \<Rightarrow> COCOCategory list \<Rightarrow> COCOData" where
  "example_data imgs anns cats =
     \<lparr>info = example_info, licenses = [], images = imgs, annotations = anns, categories = cats\<rparr>"

lemma not_annotated_iff:
  "(\<lambda>img. img_id img \<notin> ann_image_id ` set (annotations d)) =
   (\<lambda>img. \<forall>ann \<in> set (annotations d). ann_image_id ann \<noteq> img_id img)"
  by (rule ext) (metis imageE image_eqI)

text \<open>
  C7. With no annotation at all the rule returns no finding, whatever the images. With
  at least one annotation its findings are, in the order of the images, one finding for
  each image whose id is the \<^verbatim>\<open>image_id\<close> of no annotation, and nothing else.
\<close>

theorem images_without_annotations_exact:
  "(annotations d = [] \<longrightarrow> check_relation_images_without_annotations d = []) \<and>
   (annotations d \<noteq> [] \<longrightarrow>
      check_relation_images_without_annotations d =
        map no_annotations_finding
          (filter (\<lambda>img. \<forall>ann \<in> set (annotations d). ann_image_id ann \<noteq> img_id img) (images d)))"
  by (simp add: check_relation_images_without_annotations_def
      images_without_annotations_loop_filter not_annotated_iff)

theorem images_without_annotations_exact_witness:
  "annotations (example_data [example_image 1 ''a.jpg'', example_image 2 ''b.jpg''] []
      []) = [] \<and>
   check_relation_images_without_annotations
     (example_data [example_image 1 ''a.jpg'', example_image 2 ''b.jpg''] [] []) = [] \<and>
   annotations (example_data [example_image 1 ''a.jpg'', example_image 2 ''b.jpg'']
      [example_annotation 7 1 1 [0, 0, 5, 5] 25] []) \<noteq> [] \<and>
   check_relation_images_without_annotations
     (example_data [example_image 1 ''a.jpg'', example_image 2 ''b.jpg'']
        [example_annotation 7 1 1 [0, 0, 5, 5] 25] [])
     = [''Image '' @ [CHR 0x27] @ ''b.jpg'' @ [CHR 0x27] @ '' (ID 2) has no annotations.'']"
  using images_without_annotations_exact
          [of "example_data [example_image 1 ''a.jpg'', example_image 2 ''b.jpg''] [] []"]
        images_without_annotations_exact
          [of "example_data [example_image 1 ''a.jpg'', example_image 2 ''b.jpg'']
                 [example_annotation 7 1 1 [0, 0, 5, 5] 25] []"]
  by (simp add: example_data_def example_image_def example_annotation_def
      no_annotations_finding_def str_eval)

subsection \<open>Bounding boxes out of bounds\<close>

text \<open>
  The image an \<^verbatim>\<open>image_id\<close> resolves to: the last image of the document with that id
  (the one the dict comprehension keeps), if there is one.
\<close>

definition resolve_image :: "COCOData \<Rightarrow> int \<Rightarrow> COCOImage option" where
  "resolve_image d k = find (\<lambda>img. img_id img = k) (rev (images d))"

text \<open>The condition of the claim, and the finding of a flagged annotation.\<close>

definition flagged_out_of_bounds :: "COCOData \<Rightarrow> COCOAnnotation \<Rightarrow> bool" where
  "flagged_out_of_bounds d ann =
     (case resolve_image d (ann_image_id ann) of
        None \<Rightarrow> False
      | Some img \<Rightarrow>
          (case ann_bbox ann of
             [x, y, w, h] \<Rightarrow>
               x < 0 \<or> y < 0 \<or> x + w > float_of_int (img_width img) \<or> y + h > float_of_int (img_height img)
           | _ \<Rightarrow> False))"

definition out_of_bounds_message :: "float_format \<Rightarrow> COCOData \<Rightarrow> COCOAnnotation \<Rightarrow> string" where
  "out_of_bounds_message fmt d ann =
     (case (resolve_image d (ann_image_id ann), ann_bbox ann) of
        (Some img, [x, y, w, h]) \<Rightarrow> out_of_bounds_finding fmt ann img (x + w) (y + h)
      | _ \<Rightarrow> [])"

lemma find_snoc:
  "find P (xs @ [x]) = (case find P xs of None \<Rightarrow> (if P x then Some x else None) | Some y \<Rightarrow> Some y)"
  by (induction xs) auto

lemma find_SomeD: "find P xs = Some x \<Longrightarrow> x \<in> set xs \<and> P x"
  by (induction xs) (auto split: if_splits)

lemma dict_by_fold:
  "fold (\<lambda>e m. m(key e \<mapsto> e)) es m0 k =
     (case find (\<lambda>e. key e = k) (rev es) of None \<Rightarrow> m0 k | Some e \<Rightarrow> Some e)"
  by (induction es arbitrary: m0) (auto simp: find_snoc split: option.splits)

lemma dict_by_find: "dict_by key es = (\<lambda>k. find (\<lambda>e. key e = k) (rev es))"
  by (rule ext) (simp add: dict_by_def dict_by_fold split: option.splits)

lemma images_by_id_resolve: "dict_by img_id (images d) = resolve_image d"
  by (rule ext) (simp add: dict_by_find resolve_image_def)

lemma length4: "length v = 4 \<Longrightarrow> \<exists>x y w h. v = [x, y, w, h]"
  by (auto simp: numeral_eq_Suc length_Suc_conv)

lemma bbox_out_of_bounds_loop_filter:
  assumes "\<forall>ann \<in> set anns. length (ann_bbox ann) = 4"
  shows "bbox_out_of_bounds_loop fmt (resolve_image d) anns acc =
           Inr (acc @ map (out_of_bounds_message fmt d) (filter (flagged_out_of_bounds d) anns))"
  using assms
proof (induction anns arbitrary: acc)
  case Nil
  then show ?case by simp
next
  case (Cons ann anns)
  from Cons.prems obtain x y w h where b: "ann_bbox ann = [x, y, w, h]"
    using length4 by (metis list.set_intros(1))
  from Cons.prems have rest: "\<forall>a \<in> set anns. length (ann_bbox a) = 4" by simp
  show ?case
  proof (cases "resolve_image d (ann_image_id ann)")
    case None
    then show ?thesis
      by (simp add: Cons.IH[OF rest] flagged_out_of_bounds_def)
  next
    case (Some img)
    then show ?thesis
      by (simp add: Cons.IH[OF rest] b unpack_bbox_def flagged_out_of_bounds_def
          out_of_bounds_message_def Let_def)
  qed
qed

text \<open>
  C6. On a document whose bboxes have four elements (every validated document), the
  rule returns, in the order of the annotations, one finding for each annotation whose
  \<^verbatim>\<open>image_id\<close> resolves to an image of the document and whose bbox has \<open>x < 0\<close>,
  \<open>y < 0\<close>, \<open>x + w > image.width\<close> or \<open>y + h > image.height\<close>, and nothing else: an
  annotation whose \<^verbatim>\<open>image_id\<close> is the id of no image is not flagged. An id resolves
  exactly when some image of the document has it, and then to an image with that id.
\<close>

theorem bbox_out_of_bounds_exact:
  assumes "\<forall>ann \<in> set (annotations d). length (ann_bbox ann) = 4"
  shows "check_geometry_bbox_out_of_bounds fmt d =
           Inr (map (out_of_bounds_message fmt d) (filter (flagged_out_of_bounds d) (annotations d))) \<and>
         (\<forall>k. resolve_image d k = None \<longleftrightarrow> k \<notin> img_id ` set (images d)) \<and>
         (\<forall>k img. resolve_image d k = Some img \<longrightarrow> img \<in> set (images d) \<and> img_id img = k)"
proof -
  have a: "\<forall>k. resolve_image d k = None \<longleftrightarrow> k \<notin> img_id ` set (images d)"
    by (auto simp: resolve_image_def find_None_iff)
  have b: "\<forall>k img. resolve_image d k = Some img \<longrightarrow> img \<in> set (images d) \<and> img_id img = k"
    by (auto simp: resolve_image_def dest: find_SomeD)
  show ?thesis
    using a b bbox_out_of_bounds_loop_filter[OF assms, where acc = "[]" and fmt = fmt and d = d]
    by (simp add: check_geometry_bbox_out_of_bounds_def images_by_id_resolve)
qed

definition out_of_bounds_example :: COCOData where
  "out_of_bounds_example =
     example_data [example_image 101 ''a.jpg'']
       [example_annotation 1 101 1 [780, 10, 50, 50] 2500,
        example_annotation 2 101 1 [10, 10, 50, 50] 2500,
        example_annotation 3 999 1 [-5, 0, 900, 900] 810000] []"

theorem bbox_out_of_bounds_exact_witness:
  "check_geometry_bbox_out_of_bounds py_fixed out_of_bounds_example =
     Inr [''Annotation (ID 1) on image '' @ [CHR 0x27] @ ''a.jpg'' @ [CHR 0x27]
            @ '' (ID 101) is out of bounds. Bbox [x2=830.0, y2=60.0] vs. Image [w=800, h=600].'']"
  using bbox_out_of_bounds_exact[of out_of_bounds_example py_fixed]
  by (simp add: out_of_bounds_example_def flagged_out_of_bounds_def out_of_bounds_message_def
      resolve_image_def out_of_bounds_finding_def
      example_data_def example_image_def example_annotation_def example_info_def
      float_ops float_of_int_def str_eval fixed_point_def round_half_even_def zero_pad_def)

subsection \<open>Area against bounding box\<close>

text \<open>
  The annotations the rule skips: those whose segmentation is a non-empty list. A
  run-length-encoding object is a dict, which \<^verbatim>\<open>isinstance(_, list)\<close> rejects, so the
  guard lets it through to the comparison.
\<close>

fun polygon_backed :: "segmentation \<Rightarrow> bool" where
  "polygon_backed (SegList xs) = (xs \<noteq> [])"
| "polygon_backed (SegDict kvs) = False"

text \<open>The comparison: the bbox area is not close to the declared area.\<close>

definition area_mismatch :: "COCOAnnotation \<Rightarrow> bool" where
  "area_mismatch ann =
     (case ann_bbox ann of
        [x, y, w, h] \<Rightarrow> \<not> isclose (w * h) (ann_area ann) (1 / 1000) default_atol
      | _ \<Rightarrow> False)"

definition area_mismatch_message :: "float_format \<Rightarrow> COCOAnnotation \<Rightarrow> string" where
  "area_mismatch_message fmt ann =
     (case ann_bbox ann of
        [x, y, w, h] \<Rightarrow> area_mismatch_finding fmt ann (w * h)
      | _ \<Rightarrow> [])"

lemma skip_iff_polygon_backed:
  "(seg_truthy s \<and> seg_is_list s \<and> seg_len s > 0) = polygon_backed s"
  by (cases s) auto

lemma area_bbox_mismatch_loop_filter:
  assumes "\<forall>ann \<in> set anns. length (ann_bbox ann) = 4"
  shows "area_bbox_mismatch_loop fmt anns acc =
           Inr (acc @ map (area_mismatch_message fmt)
                  (filter (\<lambda>ann. \<not> polygon_backed (ann_segmentation ann) \<and> area_mismatch ann) anns))"
  using assms
proof (induction anns arbitrary: acc)
  case Nil
  then show ?case by simp
next
  case (Cons ann anns)
  from Cons.prems obtain x y w h where b: "ann_bbox ann = [x, y, w, h]"
    using length4 by (metis list.set_intros(1))
  from Cons.prems have rest: "\<forall>a \<in> set anns. length (ann_bbox a) = 4" by simp
  show ?case
    by (simp add: Cons.IH[OF rest] b skip_iff_polygon_backed unpack_bbox_def area_mismatch_def
        area_mismatch_message_def Let_def)
qed

text \<open>
  What the rule computes. On a document whose bboxes have four elements (every validated
  document) it returns, in the order of the annotations, one finding for each annotation
  whose segmentation is not a non-empty list and whose bbox area is not close to its
  declared area, and nothing else. On finite values the comparison is the formula
  \<open>|w * h - area| > atol + 1e-3 * |area|\<close>.
\<close>

lemma area_bbox_mismatch_findings:
  assumes "\<forall>ann \<in> set (annotations d). length (ann_bbox ann) = 4"
  shows "check_attribute_area_bbox_mismatch fmt d =
           Inr (map (area_mismatch_message fmt)
                  (filter (\<lambda>ann. \<not> polygon_backed (ann_segmentation ann) \<and> area_mismatch ann)
                     (annotations d)))"
  using area_bbox_mismatch_loop_filter[OF assms, where acc = "[]" and fmt = fmt]
  by (simp add: check_attribute_area_bbox_mismatch_def)

lemma area_mismatch_finite:
  "ann_bbox ann = [x, y, Finite w, Finite h] \<Longrightarrow> ann_area ann = Finite a \<Longrightarrow>
   area_mismatch ann \<longleftrightarrow> \<bar>w * h - a\<bar> > default_atol + 1 / 1000 * \<bar>a\<bar>"
  by (simp add: area_mismatch_def float_ops not_le)

text \<open>
  Two annotations of the test suite's kind, each with a declared area that is half its
  bbox area: one with a run-length-encoding object as segmentation, one with a polygon.
\<close>

definition rle_annotation :: COCOAnnotation where
  "rle_annotation =
     \<lparr>ann_id = 5, ann_image_id = 101, ann_category_id = 1,
      ann_segmentation = SegDict [(''counts'', JStr ''abc''), (''size'', JArr [JInt 10, JInt 10])],
      ann_area = Finite 50, ann_bbox = [Finite 0, Finite 0, Finite 10, Finite 10], ann_iscrowd = 1\<rparr>"

definition polygon_annotation :: COCOAnnotation where
  "polygon_annotation =
     \<lparr>ann_id = 999, ann_image_id = 101, ann_category_id = 1,
      ann_segmentation = SegList [JArr [JInt 10, JInt 10, JInt 110, JInt 10, JInt 110, JInt 110, JInt 10, JInt 110]],
      ann_area = Finite 5000, ann_bbox = [Finite 10, Finite 10, Finite 100, Finite 100], ann_iscrowd = 0\<rparr>"

text \<open>
  C2. The claim exempts every annotation with a non-empty segmentation, a polygon list
  or a run-length-encoding object alike, and the rule's own comment
  (\<^verbatim>\<open>We check if segmentation is empty as a heuristic\<close>) and the message of its test
  (\<^verbatim>\<open>Rule should ignore annotations with segmentation data.\<close>) say the same. The rule
  does exempt the polygon: on the document
  whose one annotation is \<open>polygon_annotation\<close> it returns no finding. It does not exempt
  the run-length-encoding object: on the document whose one annotation is
  \<open>rle_annotation\<close>, with a non-empty segmentation, it reports that annotation.
\<close>

theorem area_bbox_mismatch_flags_rle:
  "seg_truthy (ann_segmentation polygon_annotation) \<and>
   check_attribute_area_bbox_mismatch py_fixed (example_data [] [polygon_annotation] []) = Inr [] \<and>
   seg_truthy (ann_segmentation rle_annotation) \<and>
   check_attribute_area_bbox_mismatch py_fixed (example_data [] [rle_annotation] []) =
     Inr [''Annotation (ID 5) has a mismatched area. Bbox area is 100.00, but ''
            @ [CHR 0x27] @ ''area'' @ [CHR 0x27] @ '' attribute is 50.00.'']"
  by (simp add: check_attribute_area_bbox_mismatch_def rle_annotation_def polygon_annotation_def
      example_data_def unpack_bbox_def float_ops default_atol_def area_mismatch_finding_def
      str_eval fixed_point_def round_half_even_def zero_pad_def)

subsection \<open>Class distribution imbalance\<close>

text \<open>
  The category record an id resolves to (the last one with that id, as the dict
  comprehension keeps it), the ids of a list in the order of their first occurrence, and
  the quantities of the claim.
\<close>

definition resolve_category :: "COCOData \<Rightarrow> int \<Rightarrow> COCOCategory option" where
  "resolve_category d k = find (\<lambda>c. cat_id c = k) (rev (categories d))"

lemma categories_by_id_resolve: "dict_by cat_id (categories d) = resolve_category d"
  by (rule ext) (simp add: dict_by_find resolve_category_def)

lemma counter_add_map_of:
  "map_of (counter_add k al) = (map_of al)(k \<mapsto> (case map_of al k of None \<Rightarrow> 1 | Some c \<Rightarrow> c + 1))"
  by (induction al) (auto simp: fun_eq_iff)

lemma counter_add_keys_old: "map_of al k \<noteq> None \<Longrightarrow> map fst (counter_add k al) = map fst al"
  by (induction al) (auto split: if_splits)

lemma counter_add_keys_new: "map_of al k = None \<Longrightarrow> map fst (counter_add k al) = map fst al @ [k]"
  by (induction al) (auto split: if_splits)

lemma counter_add_keys:
  "map fst (counter_add k al) = (if k \<in> fst ` set al then map fst al else map fst al @ [k])"
  using counter_add_keys_old[of al k] counter_add_keys_new[of al k]
  by (simp add: map_of_eq_None_iff)

lemma fold_counter_add_map_of:
  "map_of (fold counter_add xs al) k =
     (case map_of al k of
        None \<Rightarrow> (if k \<in> set xs then Some (count_list xs k) else None)
      | Some c \<Rightarrow> Some (c + count_list xs k))"
proof (induction xs arbitrary: al)
  case Nil
  then show ?case by (simp split: option.splits)
next
  case (Cons x xs)
  show ?case
    by (simp add: Cons.IH counter_add_map_of split: option.splits)
qed

lemma fold_counter_add_distinct:
  "distinct (map fst al) \<Longrightarrow> distinct (map fst (fold counter_add xs al))"
  by (induction xs arbitrary: al) (auto simp: counter_add_keys)

lemma Counter_distinct: "distinct (map fst (Counter xs))"
  by (simp add: Counter_def fold_counter_add_distinct)

lemma Counter_count: "(k, n) \<in> set (Counter xs) \<Longrightarrow> n = count_list xs k"
proof -
  assume a: "(k, n) \<in> set (Counter xs)"
  then have "map_of (Counter xs) k = Some n"
    using Counter_distinct by simp
  moreover have "map_of (Counter xs) k = (if k \<in> set xs then Some (count_list xs k) else None)"
    using fold_counter_add_map_of[of xs "[]" k] by (simp add: Counter_def)
  ultimately show ?thesis by (simp split: if_splits)
qed

lemma class_imbalance_loop_filter:
  "class_imbalance_loop thr m items acc =
     acc @ map (\<lambda>(k, n). imbalance_finding (cat_name (the (m k))) n)
             (filter (\<lambda>(k, n). real n < thr \<and> m k \<noteq> None) items)"
proof (induction items arbitrary: acc)
  case Nil
  then show ?case by simp
next
  case (Cons item items)
  obtain k n where item: "item = (k, n)" by (cases item)
  show ?case
    by (cases "m k") (simp_all add: item Cons.IH)
qed

fun first_occurrences :: "int list \<Rightarrow> int list" where
  "first_occurrences [] = []"
| "first_occurrences (x # xs) = x # filter (\<lambda>y. y \<noteq> x) (first_occurrences xs)"

lemma set_first_occurrences: "set (first_occurrences xs) = set xs"
  by (induction xs) auto

lemma distinct_first_occurrences: "distinct (first_occurrences xs)"
  by (induction xs) auto

lemma fold_counter_add_order:
  "map fst (fold counter_add xs al) =
     map fst al @ filter (\<lambda>y. y \<notin> fst ` set al) (first_occurrences xs)"
proof (induction xs arbitrary: al)
  case Nil
  then show ?case by simp
next
  case (Cons x xs)
  show ?case
  proof (cases "x \<in> fst ` set al")
    case True
    then have k: "map fst (counter_add x al) = map fst al"
      by (simp add: counter_add_keys)
    then have s: "fst ` set (counter_add x al) = fst ` set al"
      by (metis list.set_map)
    from True have "filter (\<lambda>y. y \<notin> fst ` set al) (filter (\<lambda>y. y \<noteq> x) (first_occurrences xs))
        = filter (\<lambda>y. y \<notin> fst ` set al) (first_occurrences xs)"
      by (auto intro: filter_cong)
    with True show ?thesis
      by (simp add: Cons.IH k s)
  next
    case False
    then have k: "map fst (counter_add x al) = map fst al @ [x]"
      by (simp add: counter_add_keys)
    then have s: "fst ` set (counter_add x al) = insert x (fst ` set al)"
      by (metis list.set_map set_append list.simps(15) Un_insert_right sup_bot.right_neutral empty_set)
    have "filter (\<lambda>y. y \<notin> insert x (fst ` set al)) (first_occurrences xs)
        = filter (\<lambda>y. y \<notin> fst ` set al) (filter (\<lambda>y. y \<noteq> x) (first_occurrences xs))"
      by (auto intro: filter_cong)
    with False show ?thesis
      by (simp add: Cons.IH k s)
  qed
qed

lemma Counter_order: "map fst (Counter xs) = first_occurrences xs"
  using fold_counter_add_order[of xs "[]"] by (simp add: Counter_def)

lemma Counter_entries: "Counter xs = map (\<lambda>k. (k, count_list xs k)) (first_occurrences xs)"
proof -
  have "map (\<lambda>p. (fst p, snd p)) (Counter xs) = map (\<lambda>p. (fst p, count_list xs (fst p))) (Counter xs)"
    by (rule map_cong) (auto dest: Counter_count[of _ _ xs, OF] simp: prod_eq_iff)
  then have "Counter xs = map (\<lambda>k. (k, count_list xs k)) (map fst (Counter xs))"
    by (simp add: comp_def)
  then show ?thesis by (simp add: Counter_order)
qed

definition category_name :: "COCOData \<Rightarrow> int \<Rightarrow> string" where
  "category_name d k = (case resolve_category d k of Some c \<Rightarrow> cat_name c | None \<Rightarrow> [])"

definition imbalance_threshold :: "COCOData \<Rightarrow> real" where
  "imbalance_threshold d = max 10 (1 / 1000 * real (length (annotations d)))"

definition annotation_count :: "COCOData \<Rightarrow> int \<Rightarrow> nat" where
  "annotation_count d k = count_list (map ann_category_id (annotations d)) k"

definition flagged_categories :: "COCOData \<Rightarrow> int list" where
  "flagged_categories d =
     filter (\<lambda>k. real (annotation_count d k) < imbalance_threshold d \<and> k \<in> cat_id ` set (categories d))
       (first_occurrences (map ann_category_id (annotations d)))"

lemma resolve_category_None: "resolve_category d k = None \<longleftrightarrow> k \<notin> cat_id ` set (categories d)"
  by (auto simp: resolve_category_def find_None_iff)

text \<open>
  C5, amended. With fewer than 50 annotations the rule returns no finding, whatever the
  distribution. With at least 50 it returns one finding for each flagged category id,
  in the order in which the ids first occur in the annotations. The flagged ids are
  distinct, and they are exactly the category ids that at least one annotation refers
  to, that have a category record and whose number of annotations is strictly below
  \<open>max(10, 0.001 * total)\<close>.
\<close>

theorem class_distribution_imbalance_exact:
  "(length (annotations d) < 50 \<longrightarrow> check_statistical_class_distribution_imbalance d = []) \<and>
   (50 \<le> length (annotations d) \<longrightarrow>
      check_statistical_class_distribution_imbalance d =
        map (\<lambda>k. imbalance_finding (category_name d k) (annotation_count d k)) (flagged_categories d)) \<and>
   distinct (flagged_categories d) \<and>
   set (flagged_categories d) =
     {k \<in> ann_category_id ` set (annotations d).
        real (annotation_count d k) < imbalance_threshold d \<and> k \<in> cat_id ` set (categories d)}"
proof -
  let ?ids = "map ann_category_id (annotations d)"
  have small: "length (annotations d) < 50 \<longrightarrow> check_statistical_class_distribution_imbalance d = []"
    by (simp add: check_statistical_class_distribution_imbalance_def)
  have big: "check_statistical_class_distribution_imbalance d =
        map (\<lambda>k. imbalance_finding (category_name d k) (annotation_count d k)) (flagged_categories d)"
    if "50 \<le> length (annotations d)"
  proof -
    have "check_statistical_class_distribution_imbalance d =
            map (\<lambda>(k, n). imbalance_finding (cat_name (the (resolve_category d k))) n)
              (filter (\<lambda>(k, n). real n < imbalance_threshold d \<and> resolve_category d k \<noteq> None)
                 (Counter ?ids))"
      using that
      by (auto simp add: check_statistical_class_distribution_imbalance_def Let_def
          class_imbalance_loop_filter categories_by_id_resolve imbalance_threshold_def mult.commute)
    also have "\<dots> = map (\<lambda>k. imbalance_finding (category_name d k) (annotation_count d k)) (flagged_categories d)"
      by (simp add: Counter_entries[of ?ids] filter_map comp_def flagged_categories_def
          annotation_count_def resolve_category_None category_name_def
          cong: map_cong split: option.splits)
    finally show ?thesis .
  qed
  have dist: "distinct (flagged_categories d)"
    by (simp add: flagged_categories_def distinct_first_occurrences)
  have st: "set (flagged_categories d) =
     {k \<in> ann_category_id ` set (annotations d).
        real (annotation_count d k) < imbalance_threshold d \<and> k \<in> cat_id ` set (categories d)}"
    by (auto simp: flagged_categories_def set_first_occurrences)
  from small big dist st show ?thesis by blast
qed

definition example_category :: "int \<Rightarrow> string \<Rightarrow> COCOCategory" where
  "example_category i name = \<lparr>cat_id = i, cat_name = name, cat_supercategory = None\<rparr>"

definition imbalance_example :: COCOData where
  "imbalance_example =
     example_data []
       (replicate 50 (example_annotation 1 101 1 [0, 0, 1, 1] 1)
          @ replicate 3 (example_annotation 2 101 2 [0, 0, 1, 1] 1)
          @ replicate 2 (example_annotation 3 101 999 [0, 0, 1, 1] 1))
       [example_category 1 ''car'', example_category 2 ''person'', example_category 3 ''light'']"

definition skewed_small_example :: COCOData where
  "skewed_small_example =
     example_data []
       (replicate 48 (example_annotation 1 101 1 [0, 0, 1, 1] 1)
          @ [example_annotation 2 101 2 [0, 0, 1, 1] 1])
       [example_category 1 ''car'', example_category 2 ''person'']"

lemma imbalance_example_length: "length (annotations imbalance_example) = 55"
  by (simp add: imbalance_example_def example_data_def)

lemma skewed_small_example_length: "length (annotations skewed_small_example) = 49"
  by (simp add: skewed_small_example_def example_data_def)

lemma imbalance_example_flagged: "flagged_categories imbalance_example = [2]"
  by code_simp

lemma imbalance_example_count: "annotation_count imbalance_example 2 = 3"
  by code_simp

lemma imbalance_example_name: "category_name imbalance_example 2 = ''person''"
  by code_simp

theorem class_distribution_imbalance_exact_witness:
  "length (annotations skewed_small_example) < 50 \<and>
   check_statistical_class_distribution_imbalance skewed_small_example = [] \<and>
   50 \<le> length (annotations imbalance_example) \<and>
   check_statistical_class_distribution_imbalance imbalance_example =
     [''Severe class imbalance: Category '' @ [CHR 0x27] @ ''person'' @ [CHR 0x27]
        @ '' has only 3 annotations.'']"
  using class_distribution_imbalance_exact[of skewed_small_example]
        class_distribution_imbalance_exact[of imbalance_example]
  by (simp add: imbalance_example_length skewed_small_example_length imbalance_example_flagged
      imbalance_example_count imbalance_example_name imbalance_finding_def str_eval)

lemma imbalance_example_unreferenced: "annotation_count imbalance_example 3 = 0"
  by code_simp

lemma imbalance_example_threshold: "imbalance_threshold imbalance_example = 10"
  by (simp add: imbalance_threshold_def imbalance_example_length)

lemma imbalance_example_findings:
  "check_statistical_class_distribution_imbalance imbalance_example =
     [''Severe class imbalance: Category '' @ [CHR 0x27] @ ''person'' @ [CHR 0x27]
        @ '' has only 3 annotations.'']"
  by code_simp

text \<open>
  C5 as stated fails on a category that no annotation refers to. The loop runs over the
  keys of the counter of the annotations' category ids, so such a category is never
  looked at. In \<open>imbalance_example\<close> (55 annotations) the category \<^verbatim>\<open>light\<close> has a
  category record and 0 annotations, which is below the threshold 10, and the rule's one
  finding is about \<^verbatim>\<open>person\<close>: the finding that would report \<^verbatim>\<open>light\<close> is not
  returned.
\<close>

theorem unreferenced_category_not_flagged:
  "50 \<le> length (annotations imbalance_example) \<and>
   example_category 3 ''light'' \<in> set (categories imbalance_example) \<and>
   real (annotation_count imbalance_example 3) < imbalance_threshold imbalance_example \<and>
   check_statistical_class_distribution_imbalance imbalance_example =
     [imbalance_finding ''person'' 3] \<and>
   imbalance_finding ''light'' 0 \<notin>
     set (check_statistical_class_distribution_imbalance imbalance_example)"
  by (simp add: imbalance_example_length imbalance_example_unreferenced
      imbalance_example_threshold imbalance_example_findings imbalance_finding_def str_eval)
     (simp add: imbalance_example_def example_data_def)

section \<open>Properties of the engine\<close>

text \<open>
  The keys a list of rules can write to \<^verbatim>\<open>results\<close> (each rule its own name or its
  error key), and what one rule adds to \<^verbatim>\<open>total_findings\<close>.
\<close>

definition possible_keys :: "rule list \<Rightarrow> string list" where
  "possible_keys rs = concat (map (\<lambda>r. [fst r, execution_error_key (fst r)]) rs)"

definition rule_count :: "COCOData \<Rightarrow> rule \<Rightarrow> int" where
  "rule_count d r = (case snd r d of Inl e \<Rightarrow> 1 | Inr fs \<Rightarrow> int (length fs))"

lemma run_rules_append:
  "run_rules d (xs @ ys) st = run_rules d ys (run_rules d xs st)"
proof (induction xs arbitrary: st)
  case Nil
  then show ?case by simp
next
  case (Cons r xs)
  obtain n f where r: "r = (n, f)" by (cases r)
  obtain res t where st: "st = (res, t)" by (cases st)
  show ?case
    by (simp add: r st Cons.IH split: sum.splits)
qed

lemma run_rules_total:
  "snd (run_rules d rs (res, t)) = t + sum_list (map (rule_count d) rs)"
proof (induction rs arbitrary: res t)
  case Nil
  then show ?case by simp
next
  case (Cons r rs)
  obtain n f where r: "r = (n, f)" by (cases r)
  show ?case
    by (simp add: r Cons.IH rule_count_def split: sum.splits)
qed

lemma run_rules_untouched:
  "k \<notin> set (possible_keys rs) \<Longrightarrow> map_of (fst (run_rules d rs (res, t))) k = map_of res k"
proof (induction rs arbitrary: res t)
  case Nil
  then show ?case by simp
next
  case (Cons r rs)
  obtain n f where r: "r = (n, f)" by (cases r)
  from Cons.prems have k: "k \<noteq> n" "k \<noteq> execution_error_key n" "k \<notin> set (possible_keys rs)"
    by (auto simp: possible_keys_def r)
  show ?case
    using k by (simp add: r Cons.IH update_conv' split: sum.splits)
qed

lemma update_fresh: "k \<notin> fst ` set al \<Longrightarrow> AList.update k v al = al @ [(k, v)]"
  by (induction al) auto

definition findings_consistent :: "(string \<times> string list) list \<times> int \<Rightarrow> bool" where
  "findings_consistent st \<longleftrightarrow>
     snd st = sum_list (map (\<lambda>kv. int (length (snd kv))) (fst st)) \<and>
     list_all (\<lambda>kv. snd kv \<noteq> []) (fst st) \<and>
     distinct (map fst (fst st))"

lemma run_rules_consistent:
  assumes "distinct (possible_keys rs)"
      and "fst ` set res \<inter> set (possible_keys rs) = {}"
      and "findings_consistent (res, t)"
  shows "findings_consistent (run_rules d rs (res, t))"
  using assms
proof (induction rs arbitrary: res t)
  case Nil
  then show ?case by simp
next
  case (Cons r rs)
  obtain n f where r: "r = (n, f)" by (cases r)
  from Cons.prems(1) have d: "distinct (possible_keys rs)"
    and n1: "n \<notin> set (possible_keys rs)" and n2: "execution_error_key n \<notin> set (possible_keys rs)"
    by (auto simp: possible_keys_def r)
  from Cons.prems(2) have f1: "n \<notin> fst ` set res" and f2: "execution_error_key n \<notin> fst ` set res"
    and rest: "fst ` set res \<inter> set (possible_keys rs) = {}"
    by (auto simp: possible_keys_def r)
  show ?case
  proof (cases "f d")
    case (Inl e)
    let ?res = "res @ [(execution_error_key n, error_finding)]"
    have c: "findings_consistent (?res, t + 1)"
      using Cons.prems(3) f2 by (simp add: findings_consistent_def error_finding_def)
    have i: "fst ` set ?res \<inter> set (possible_keys rs) = {}"
      using rest n2 by auto
    show ?thesis
      using Cons.IH[OF d i c] Inl by (simp add: r update_fresh[OF f2])
  next
    case (Inr fs)
    show ?thesis
    proof (cases "fs = []")
      case True
      then show ?thesis
        using Cons.IH[OF d rest Cons.prems(3)] Inr by (simp add: r)
    next
      case False
      let ?res = "res @ [(n, fs)]"
      have c: "findings_consistent (?res, t + int (length fs))"
        using Cons.prems(3) f1 False by (simp add: findings_consistent_def)
      have i: "fst ` set ?res \<inter> set (possible_keys rs) = {}"
        using rest n1 by auto
      show ?thesis
        using Cons.IH[OF d i c] Inr False by (simp add: r update_fresh[OF f1])
    qed
  qed
qed

lemma registered_keys_distinct:
  "map fst rs = registered_rule_names \<Longrightarrow> distinct (possible_keys rs)"
proof -
  assume a: "map fst rs = registered_rule_names"
  have "possible_keys rs = concat (map (\<lambda>n. [n, execution_error_key n]) (map fst rs))"
    by (simp add: possible_keys_def comp_def)
  also have "\<dots> = concat (map (\<lambda>n. [n, execution_error_key n]) registered_rule_names)"
    by (simp add: a)
  finally show ?thesis
    by (simp add: registered_rule_names_def execution_error_key_def)
qed

lemma execute_rules_consistent:
  assumes "map fst rs = registered_rule_names"
  shows "findings_consistent (findings (execute_rules d rs), total_findings (execute_rules d rs))"
proof -
  have "findings_consistent (run_rules d rs ([], 0))"
    by (rule run_rules_consistent[OF registered_keys_distinct[OF assms]])
       (simp_all add: findings_consistent_def)
  then show ?thesis
    by (cases "run_rules d rs ([], 0)") (simp add: execute_rules_def)
qed

lemma execute_rules_findings: "findings (execute_rules d rs) = fst (run_rules d rs ([], 0))"
  by (cases "run_rules d rs ([], 0)") (simp add: execute_rules_def)

lemma execute_rules_total: "total_findings (execute_rules d rs) = snd (run_rules d rs ([], 0))"
  by (cases "run_rules d rs ([], 0)") (simp add: execute_rules_def)

lemma run_rules_failing_step:
  "rule_func d = Inl e \<Longrightarrow>
   run_rules d ((rule_name, rule_func) # remaining) st =
     run_rules d remaining
       (AList.update (execution_error_key rule_name) error_finding (fst st), snd st + 1)"
  by (cases st) simp

lemma run_rules_empty_step:
  "rule_func d = Inr [] \<Longrightarrow> run_rules d ((rule_name, rule_func) # remaining) st = run_rules d remaining st"
  by (cases st) simp

text \<open>
  C1. When a rule raises on the document \<open>d\<close>, the loop goes on with the remaining
  rules from the state in which the key \<^verbatim>\<open><rule_name>_execution_error\<close> holds exactly
  the one string \<^verbatim>\<open>Rule execution failed with an internal error.\<close> and the total is one
  higher; so the scan's total is that of the scan without the rule plus one, the key holds
  that list in the result unless a later rule writes the same key, and \<^verbatim>\<open>run_scan\<close>
  returns a result whenever the file parsed. A rule that returns the empty list changes
  nothing: the result is the one of the scan without it, and its name is no key of the
  findings unless another rule writes that key.
\<close>

theorem rule_failure_is_isolated:
  assumes "rule_func d = Inl e"
  shows
    "run_rules d (before @ (rule_name, rule_func) # remaining) st =
       run_rules d remaining
         (AList.update (execution_error_key rule_name) error_finding (fst (run_rules d before st)),
          snd (run_rules d before st) + 1) \<and>
     total_findings (execute_rules d (before @ (rule_name, rule_func) # remaining)) =
       total_findings (execute_rules d (before @ remaining)) + 1 \<and>
     (execution_error_key rule_name \<notin> set (possible_keys remaining) \<longrightarrow>
        map_of (findings (execute_rules d (before @ (rule_name, rule_func) # remaining)))
          (execution_error_key rule_name) = Some error_finding) \<and>
     (parse_coco lib filepath = Inr d \<longrightarrow>
        run_scan lib (before @ (rule_name, rule_func) # remaining) filepath =
          Inr (execute_rules d (before @ (rule_name, rule_func) # remaining))) \<and>
     (\<forall>name' func'. func' d = Inr [] \<longrightarrow>
        run_rules d (xs @ (name', func') # ys) st' = run_rules d (xs @ ys) st' \<and>
        (name' \<notin> set (possible_keys (xs @ ys)) \<longrightarrow>
           map_of (findings (execute_rules d (xs @ (name', func') # ys))) name' = None))"
proof -
  have step: "run_rules d (before @ (rule_name, rule_func) # remaining) st =
       run_rules d remaining
         (AList.update (execution_error_key rule_name) error_finding (fst (run_rules d before st)),
          snd (run_rules d before st) + 1)" for st
    using assms by (simp add: run_rules_append run_rules_failing_step)
  have tot: "total_findings (execute_rules d (before @ (rule_name, rule_func) # remaining)) =
       total_findings (execute_rules d (before @ remaining)) + 1"
    using assms by (simp add: execute_rules_total run_rules_total rule_count_def)
  have key: "map_of (findings (execute_rules d (before @ (rule_name, rule_func) # remaining)))
          (execution_error_key rule_name) = Some error_finding"
    if "execution_error_key rule_name \<notin> set (possible_keys remaining)"
    by (simp add: execute_rules_findings step run_rules_untouched[OF that] update_conv')
  have scan: "run_scan lib (before @ (rule_name, rule_func) # remaining) filepath =
          Inr (execute_rules d (before @ (rule_name, rule_func) # remaining))"
    if "parse_coco lib filepath = Inr d"
    using that by (simp add: run_scan_def)
  have empty: "run_rules d (xs @ (name', func') # ys) st' = run_rules d (xs @ ys) st' \<and>
        (name' \<notin> set (possible_keys (xs @ ys)) \<longrightarrow>
           map_of (findings (execute_rules d (xs @ (name', func') # ys))) name' = None)"
    if e: "func' d = Inr []" for name' func'
  proof -
    have eq: "run_rules d (xs @ (name', func') # ys) st = run_rules d (xs @ ys) st" for st
      using e by (simp add: run_rules_append run_rules_empty_step)
    show ?thesis
      by (simp add: eq execute_rules_findings run_rules_untouched)
  qed
  from step tot key scan empty show ?thesis by blast
qed

definition rule_R :: rule where
  "rule_R = (''R'', \<lambda>d. Inr [''a'', ''b''])"

definition rule_S :: rule where
  "rule_S = (''S'', \<lambda>d. Inl (PyException ''ValueError''))"

definition rule_T :: rule where
  "rule_T = (''T'', \<lambda>d. Inr [])"

theorem rule_failure_is_isolated_witness:
  "execute_rules (example_data [] [] []) [rule_R, rule_S, rule_T] =
     \<lparr>data = example_data [] [] [],
      findings = [(''R'', [''a'', ''b'']),
                  (''S_execution_error'', [''Rule execution failed with an internal error.''])],
      total_findings = 3\<rparr> \<and>
   total_findings (execute_rules (example_data [] [] []) [rule_R, rule_T]) = 2 \<and>
   map_of (findings (execute_rules (example_data [] [] []) [rule_R, rule_S, rule_T])) ''T'' = None"
  using rule_failure_is_isolated
          [of "snd rule_S" "example_data [] [] []" "PyException ''ValueError''" "[rule_R]" "''S''"
              "[rule_T]" "([], 0)"]
  by (simp add: rule_R_def rule_S_def rule_T_def execute_rules_def execution_error_key_def
      error_finding_def)

section \<open>Properties of the schema validation\<close>

text \<open>The field constraints of the schema, on a validated document.\<close>

definition valid_image :: "COCOImage \<Rightarrow> bool" where
  "valid_image img \<longleftrightarrow> img_width img > 0 \<and> img_height img > 0"

definition valid_annotation :: "library \<Rightarrow> COCOAnnotation \<Rightarrow> bool" where
  "valid_annotation lib a \<longleftrightarrow>
     float_ge lib (ann_area a) 0 \<and> ann_iscrowd a \<ge> 0 \<and> ann_iscrowd a \<le> 1 \<and>
     (case ann_bbox a of [x, y, w, h] \<Rightarrow> \<not> w < 0 \<and> \<not> h < 0 | _ \<Rightarrow> False)"

definition valid_info :: "COCOInfo \<Rightarrow> bool" where
  "valid_info i \<longleftrightarrow> list_all (\<lambda>kv. fst kv \<notin> set info_fields) (info_extra i)"

definition valid_document :: "library \<Rightarrow> COCOData \<Rightarrow> bool" where
  "valid_document lib d \<longleftrightarrow>
     valid_info (info d) \<and> list_all valid_image (images d) \<and>
     list_all (valid_annotation lib) (annotations d)"

lemma those_map_all:
  "those (map v xs) = Some ys \<Longrightarrow> (\<And>x y. v x = Some y \<Longrightarrow> P y) \<Longrightarrow> list_all P ys"
proof (induction xs arbitrary: ys)
  case Nil
  then show ?case by simp
next
  case (Cons x xs)
  then show ?case
    by (auto split: option.splits)
qed

lemma those_map_None: "x \<in> set xs \<Longrightarrow> v x = None \<Longrightarrow> those (map v xs) = None"
  by (induction xs) (auto split: option.splits)

lemma validate_bbox_shape:
  "validate_bbox lib j = Some v \<Longrightarrow> \<exists>x y w h. v = [x, y, w, h] \<and> \<not> w < 0 \<and> \<not> h < 0"
  by (auto simp: validate_bbox_def bbox_must_have_positive_dimensions_def
      split: bind_splits if_splits list.splits)

lemma validate_annotation_valid:
  "validate_annotation lib j = Some a \<Longrightarrow> valid_annotation lib a"
  by (auto simp: validate_annotation_def valid_annotation_def required_def validate_area_def
      validate_iscrowd_def
      dest!: validate_bbox_shape split: json.splits bind_splits if_splits option.splits)

lemma validate_image_valid:
  "validate_image lib j = Some img \<Longrightarrow> valid_image img"
  by (auto simp: validate_image_def valid_image_def required_def gt0_def
      split: json.splits bind_splits if_splits option.splits)

lemma validate_info_valid:
  "validate_info lib j = Some i \<Longrightarrow> valid_info i"
  by (auto simp: validate_info_def valid_info_def list_all_iff
      split: json.splits bind_splits)

lemma model_validate_valid:
  "model_validate lib j = Some d \<Longrightarrow> valid_document lib d"
  by (auto simp: model_validate_def valid_document_def required_def validate_list_def
      split: json.splits bind_splits if_splits option.splits
      intro: validate_info_valid those_map_all[where v = "validate_image lib"]
        those_map_all[where v = "validate_annotation lib"]
        validate_image_valid validate_annotation_valid)

lemma parse_coco_valid: "parse_coco lib filepath = Inr d \<Longrightarrow> valid_document lib d"
  by (auto simp: parse_coco_def split: sum.splits option.splits if_splits dest: model_validate_valid)

subsection \<open>Negative bbox dimensions\<close>

text \<open>
  A library for the worked examples: every path reads as a text that parses to the
  given tree; the coercions are pydantic's lax ones on JSON numbers and booleans (its
  parsing of numeric strings left out), where a float field takes a float as it is, an
  infinity or NaN too; and the test of a \<^verbatim>\<open>ge\<close> bound refuses a value below the bound.
\<close>

definition lax_int :: "json \<Rightarrow> int option" where
  "lax_int j =
     (case j of
        JInt i \<Rightarrow> Some i
      | JBool b \<Rightarrow> Some (if b then 1 else 0)
      | JFloat (Finite r) \<Rightarrow> (if r = of_int \<lfloor>r\<rfloor> then Some \<lfloor>r\<rfloor> else None)
      | _ \<Rightarrow> None)"

definition lax_float :: "json \<Rightarrow> pyfloat option" where
  "lax_float j =
     (case j of
        JFloat r \<Rightarrow> Some r
      | JInt i \<Rightarrow> Some (float_of_int i)
      | JBool b \<Rightarrow> Some (Finite (if b then 1 else 0))
      | _ \<Rightarrow> None)"

definition example_library :: "json \<Rightarrow> library" where
  "example_library j =
     \<lparr>read_text = (\<lambda>p. Inr ''(the text of the file)''), json_loads = (\<lambda>s. Inr j),
      as_int = lax_int, as_float = lax_float, float_ge = (\<lambda>a b. \<not> a < b)\<rparr>"

definition annotation_record :: "int \<Rightarrow> json list \<Rightarrow> (string \<times> json) list" where
  "annotation_record i box =
     [(''id'', JInt i), (''image_id'', JInt 101), (''category_id'', JInt 1),
      (''area'', JFloat (Finite 2500)), (''bbox'', JArr box), (''iscrowd'', JInt 0)]"

definition document_json :: "(string \<times> json) list \<Rightarrow> json list \<Rightarrow> (string \<times> json) list" where
  "document_json info_kvs anns =
     [(''info'', JObj info_kvs), (''licenses'', JArr []), (''images'', JArr []),
      (''annotations'', JArr anns), (''categories'', JArr [])]"

text \<open>The raw annotation record has a bbox of four values with a negative width or height.\<close>

definition negative_bbox :: "library \<Rightarrow> (string \<times> json) list \<Rightarrow> bool" where
  "negative_bbox lib kvs =
     (case map_of kvs ''bbox'' of
        Some (JArr [jx, jy, jw, jh]) \<Rightarrow>
          (case as_float lib jw of Some w \<Rightarrow> w < 0 | None \<Rightarrow> False) \<or>
          (case as_float lib jh of Some h \<Rightarrow> h < 0 | None \<Rightarrow> False)
      | _ \<Rightarrow> False)"

lemma negative_bbox_refused:
  "negative_bbox lib kvs \<Longrightarrow> required (validate_bbox lib) kvs ''bbox'' = None"
  by (auto simp: negative_bbox_def required_def validate_bbox_def validate_list_def
      bbox_must_have_positive_dimensions_def
      split: option.splits json.splits list.splits bind_splits if_splits)

lemma negative_bbox_annotation:
  "negative_bbox lib kvs \<Longrightarrow> validate_annotation lib (JObj kvs) = None"
  by (simp add: validate_annotation_def negative_bbox_refused bind_eq_None_conv)

lemma bad_annotation_document:
  assumes "map_of obj ''annotations'' = Some (JArr anns)" and "a \<in> set anns"
      and "validate_annotation lib a = None"
  shows "model_validate lib (JObj obj) = None"
proof -
  have "required (validate_list (validate_annotation lib)) obj ''annotations'' = None"
    using assms by (simp add: required_def validate_list_def those_map_None)
  then show ?thesis
    by (simp add: model_validate_def bind_eq_None_conv)
qed

lemma parse_coco_invalid:
  "read_text lib filepath = Inr raw \<Longrightarrow> json_loads lib raw = Inr j \<Longrightarrow>
   model_validate lib j = None \<Longrightarrow> parse_coco lib filepath = Inl InvalidFormatError"
  by (simp add: parse_coco_def)

lemma parse_coco_validated:
  "read_text lib filepath = Inr raw \<Longrightarrow> json_loads lib raw = Inr j \<Longrightarrow>
   model_validate lib j = Some d \<Longrightarrow> parse_coco lib filepath = Inr d"
  by (simp add: parse_coco_def)

lemma parse_coco_unhandled:
  "read_text lib filepath = Inr raw \<Longrightarrow> json_loads lib raw = Inl e \<Longrightarrow> e \<noteq> JSONDecodeError \<Longrightarrow>
   parse_coco lib filepath = Inl (Unhandled e)"
  by (simp add: parse_coco_def)

lemma run_scan_parse_error: "parse_coco lib filepath = Inl e \<Longrightarrow> run_scan lib rs filepath = Inl e"
  by (simp add: run_scan_def)

lemma run_scan_data: "run_scan lib rs filepath = Inr r \<Longrightarrow> parse_coco lib filepath = Inr (data r)"
  by (auto simp: run_scan_def execute_rules_def split: sum.splits prod.splits)

lemma valid_annotation_bbox:
  "valid_annotation lib a \<Longrightarrow> \<exists>x y w h. ann_bbox a = [x, y, w, h] \<and> \<not> w < 0 \<and> \<not> h < 0"
  by (auto simp: valid_annotation_def split: list.splits)

lemma valid_document_bbox:
  "valid_document lib d \<Longrightarrow> a \<in> set (annotations d) \<Longrightarrow>
   \<exists>x y w h. ann_bbox a = [x, y, w, h] \<and> \<not> w < 0 \<and> \<not> h < 0"
  by (rule valid_annotation_bbox[of lib]) (simp add: valid_document_def list_all_iff)

text \<open>
  C3, amended. An annotation record whose bbox has a negative width or height (a negative
  infinity too) is refused by the schema validation, a document that contains such a
  record makes \<^verbatim>\<open>parse_coco\<close> raise \<^verbatim>\<open>InvalidFormatError\<close>, and \<^verbatim>\<open>run_scan\<close> raises it
  again without running a rule. So every annotation of a document that \<^verbatim>\<open>parse_coco\<close>
  returns, and of the document in every \<^verbatim>\<open>ScanResult\<close>, has a bbox of four values whose
  width and height are not negative: neither is below 0. (That is less than
  \<open>at least 0\<close>: a NaN is not below 0.)
\<close>

theorem negative_bbox_never_validated:
  "(negative_bbox lib kvs \<longrightarrow> validate_annotation lib (JObj kvs) = None) \<and>
   (read_text lib filepath = Inr raw \<and> json_loads lib raw = Inr (JObj obj) \<and>
    map_of obj ''annotations'' = Some (JArr anns) \<and> JObj kvs \<in> set anns \<and> negative_bbox lib kvs \<longrightarrow>
      parse_coco lib filepath = Inl InvalidFormatError \<and>
      run_scan lib all_rules filepath = Inl InvalidFormatError) \<and>
   (parse_coco lib filepath' = Inr d \<longrightarrow>
      (\<forall>a \<in> set (annotations d). \<exists>x y w h. ann_bbox a = [x, y, w, h] \<and> \<not> w < 0 \<and> \<not> h < 0)) \<and>
   (run_scan lib all_rules filepath' = Inr r \<longrightarrow>
      (\<forall>a \<in> set (annotations (data r)). \<exists>x y w h. ann_bbox a = [x, y, w, h] \<and> \<not> w < 0 \<and> \<not> h < 0))"
proof -
  have one: "negative_bbox lib kvs \<longrightarrow> validate_annotation lib (JObj kvs) = None"
    by (rule impI) (rule negative_bbox_annotation)
  have two: "read_text lib filepath = Inr raw \<and> json_loads lib raw = Inr (JObj obj) \<and>
      map_of obj ''annotations'' = Some (JArr anns) \<and> JObj kvs \<in> set anns \<and> negative_bbox lib kvs \<longrightarrow>
        parse_coco lib filepath = Inl InvalidFormatError \<and>
        run_scan lib all_rules filepath = Inl InvalidFormatError"
  proof (rule impI, elim conjE)
    assume a: "read_text lib filepath = Inr raw" "json_loads lib raw = Inr (JObj obj)"
       "map_of obj ''annotations'' = Some (JArr anns)" "JObj kvs \<in> set anns" "negative_bbox lib kvs"
    have "model_validate lib (JObj obj) = None"
      using a(3,4) negative_bbox_annotation[OF a(5)] by (rule bad_annotation_document)
    then have "parse_coco lib filepath = Inl InvalidFormatError"
      using a(1,2) by (simp add: parse_coco_invalid)
    then show "parse_coco lib filepath = Inl InvalidFormatError \<and>
        run_scan lib all_rules filepath = Inl InvalidFormatError"
      by (simp add: run_scan_parse_error)
  qed
  have bbox: "\<forall>a \<in> set (annotations d'). \<exists>x y w h. ann_bbox a = [x, y, w, h] \<and> \<not> w < 0 \<and> \<not> h < 0"
    if "parse_coco lib filepath' = Inr d'" for d'
    using valid_document_bbox[OF parse_coco_valid[OF that]] by simp
  have three: "parse_coco lib filepath' = Inr d \<longrightarrow>
      (\<forall>a \<in> set (annotations d). \<exists>x y w h. ann_bbox a = [x, y, w, h] \<and> \<not> w < 0 \<and> \<not> h < 0)"
    by (rule impI) (rule bbox)
  have four: "run_scan lib all_rules filepath' = Inr r \<longrightarrow>
      (\<forall>a \<in> set (annotations (data r)). \<exists>x y w h. ann_bbox a = [x, y, w, h] \<and> \<not> w < 0 \<and> \<not> h < 0)"
    by (rule impI) (rule bbox[OF run_scan_data])
  show ?thesis
    by (rule conjI[OF one conjI[OF two conjI[OF three four]]])
qed

lemmas validate_eval =
  model_validate_def validate_info_def validate_license_def validate_image_def
  validate_annotation_def validate_category_def validate_segmentation_def validate_area_def
  validate_bbox_def validate_iscrowd_def validate_list_def validate_str_def
  bbox_must_have_positive_dimensions_def required_def optional_def no_extra_def gt0_def
  info_fields_def license_fields_def image_fields_def annotation_fields_def category_fields_def
  data_fields_def lax_int_def lax_float_def example_library_def parse_coco_def
  float_ops float_of_int_def

theorem negative_bbox_never_validated_witness:
  "negative_bbox (example_library JNull) (annotation_record 1 [JInt 10, JInt 10, JInt (- 50), JInt 50]) \<and>
   validate_annotation (example_library JNull)
     (JObj (annotation_record 1 [JInt 10, JInt 10, JInt (- 50), JInt 50])) = None \<and>
   parse_coco
     (example_library
        (JObj (document_json [] [JObj (annotation_record 1 [JInt 10, JInt 10, JInt 50, JFloat NegInf])])))
     ''bad.json'' = Inl InvalidFormatError \<and>
   parse_coco
     (example_library
        (JObj (document_json [] [JObj (annotation_record 1 [JInt 10, JInt 10, JInt 50, JInt 50])])))
     ''good.json'' = Inr (example_data [] [example_annotation 1 101 1 [10, 10, 50, 50] 2500] [])"
  using negative_bbox_never_validated
          [where lib = "example_library JNull"
             and kvs = "annotation_record 1 [JInt 10, JInt 10, JInt (- 50), JInt 50]"]
        negative_bbox_never_validated
          [where lib = "example_library
                  (JObj (document_json [] [JObj (annotation_record 1 [JInt 10, JInt 10, JInt 50, JFloat NegInf])]))"
             and kvs = "annotation_record 1 [JInt 10, JInt 10, JInt 50, JFloat NegInf]"
             and filepath = "''bad.json''"
             and raw = "''(the text of the file)''"
             and obj = "document_json [] [JObj (annotation_record 1 [JInt 10, JInt 10, JInt 50, JFloat NegInf])]"
             and anns = "[JObj (annotation_record 1 [JInt 10, JInt 10, JInt 50, JFloat NegInf])]"]
  by (simp add: negative_bbox_def annotation_record_def document_json_def validate_eval
      example_data_def example_annotation_def example_info_def)

text \<open>
  The annotation of the test fixtures with NaN for its width, as \<^verbatim>\<open>json.loads\<close> reads
  \<^verbatim>\<open>"bbox": [10, 10, NaN, 50]\<close>.
\<close>

definition nan_width_annotation :: COCOAnnotation where
  "nan_width_annotation =
     \<lparr>ann_id = 1, ann_image_id = 101, ann_category_id = 1, ann_segmentation = SegList [],
      ann_area = Finite 2500, ann_bbox = [Finite 10, Finite 10, NaN, Finite 50], ann_iscrowd = 0\<rparr>"

text \<open>
  C3 as stated fails: not every annotation of a validated document has a width of at
  least 0. The validator's test \<^verbatim>\<open>w < 0 or h < 0\<close> is false for a NaN, which
  \<^verbatim>\<open>json.loads\<close> accepts and a float field keeps: the document with the annotation above
  is validated, and its width is not at least 0.
\<close>

theorem nan_width_validated:
  "parse_coco
     (example_library
        (JObj (document_json [] [JObj (annotation_record 1 [JInt 10, JInt 10, JFloat NaN, JInt 50])])))
     ''nan.json'' = Inr (example_data [] [nan_width_annotation] []) \<and>
   ann_bbox nan_width_annotation = [Finite 10, Finite 10, NaN, Finite 50] \<and>
   \<not> (0 :: pyfloat) \<le> NaN"
  by (simp add: annotation_record_def document_json_def validate_eval
      example_data_def nan_width_annotation_def example_info_def)

subsection \<open>A top-level value that is not an object\<close>

fun is_object :: "json \<Rightarrow> bool" where
  "is_object (JObj kvs) = True"
| "is_object j = False"

lemma model_validate_non_object: "\<not> is_object j \<Longrightarrow> model_validate lib j = None"
  by (cases j) (simp_all add: model_validate_def)

text \<open>
  When \<^verbatim>\<open>json.loads\<close> returns a value that is not an object (an array, a string, a
  number, a boolean, null), \<^verbatim>\<open>parse_coco\<close> raises \<^verbatim>\<open>InvalidFormatError\<close>, and so does
  \<^verbatim>\<open>run_scan\<close>.
\<close>

lemma non_object_value_rejected:
  assumes "read_text lib filepath = Inr raw" and "json_loads lib raw = Inr j" and "\<not> is_object j"
  shows "parse_coco lib filepath = Inl InvalidFormatError \<and>
         run_scan lib all_rules filepath = Inl InvalidFormatError"
proof -
  have "model_validate lib j = None"
    using assms(3) by (rule model_validate_non_object)
  then have "parse_coco lib filepath = Inl InvalidFormatError"
    using assms(1,2) by (simp add: parse_coco_invalid)
  then show ?thesis
    by (simp add: run_scan_parse_error)
qed

text \<open>
  But \<^verbatim>\<open>json.loads\<close> does not return a value for every syntactically valid text. A
  file of 100000 opening brackets followed by 100000 closing brackets is a valid JSON
  array, and on it \<^verbatim>\<open>json.loads\<close> raises \<^verbatim>\<open>RecursionError\<close>. The library below is the
  interpreter on that file: the given text for every path, the given exception of
  \<^verbatim>\<open>json.loads\<close> on that text (and a syntax error on any other).
\<close>

definition deep_array_text :: string where
  "deep_array_text = replicate 100000 (CHR ''['') @ replicate 100000 (CHR '']'')"

definition raising_library :: "string \<Rightarrow> py_exception \<Rightarrow> library" where
  "raising_library text e =
     \<lparr>read_text = (\<lambda>p. Inr text),
      json_loads = (\<lambda>s. if s = text then Inl e else Inl JSONDecodeError),
      as_int = lax_int, as_float = lax_float, float_ge = (\<lambda>a b. \<not> a < b)\<rparr>"

text \<open>
  C10. The claim, like the docstring of \<^verbatim>\<open>parse_coco\<close> (anything but a validated
  document is a \<^verbatim>\<open>ParseError\<close>), has \<^verbatim>\<open>InvalidFormatError\<close> raised for every readable,
  syntactically valid text whose top-level value is not an object. On the file of the
  deeply nested array the code has no \<^verbatim>\<open>except\<close> clause for what \<^verbatim>\<open>json.loads\<close> raises:
  the \<^verbatim>\<open>RecursionError\<close> leaves \<^verbatim>\<open>parse_coco\<close> and \<^verbatim>\<open>run_scan\<close> as it is, and it is not a
  \<^verbatim>\<open>ParseError\<close>. (On a file that holds a short array the error is raised as claimed.)
\<close>

theorem deep_array_unhandled:
  "parse_coco (raising_library deep_array_text (PyException ''RecursionError'')) ''deep.json'' =
     Inl (Unhandled (PyException ''RecursionError'')) \<and>
   run_scan (raising_library deep_array_text (PyException ''RecursionError'')) [] ''deep.json'' =
     Inl (Unhandled (PyException ''RecursionError'')) \<and>
   \<not> is_ParseError (Unhandled (PyException ''RecursionError'')) \<and>
   parse_coco (example_library (JArr [JArr []])) ''short.json'' = Inl InvalidFormatError"
  by (simp add: parse_coco_def run_scan_def raising_library_def JSONDecodeError_def
      example_library_def model_validate_def)

subsection \<open>Unknown fields\<close>

lemma no_extra_iff: "no_extra names kvs \<longleftrightarrow> fst ` set kvs \<subseteq> set names"
  by (auto simp: no_extra_def list_all_iff)

lemma unknown_field_refused:
  "k \<in> fst ` set obj \<Longrightarrow> k \<notin> set data_fields \<Longrightarrow> model_validate lib (JObj obj) = None"
  by (auto simp: model_validate_def no_extra_iff)

lemma map_of_insert_other:
  "f \<noteq> k \<Longrightarrow> map_of (pre @ (k, v) # post) f = map_of (pre @ post) f"
  by (induction pre) auto

lemma optional_insert_other:
  assumes "f \<noteq> k"
  shows "optional p (pre @ (k, v) # post) f = optional p (pre @ post) f"
  unfolding optional_def map_of_insert_other[OF assms] by (rule refl)

lemma validate_info_unknown_field:
  assumes "k \<notin> set info_fields"
  shows "validate_info lib (JObj (pre @ (k, v) # post)) =
           map_option (\<lambda>i. i\<lparr>info_extra := filter (\<lambda>kv. fst kv \<notin> set info_fields) (pre @ (k, v) # post)\<rparr>)
             (validate_info lib (JObj (pre @ post)))"
proof -
  have ne: "''year'' \<noteq> k" "''version'' \<noteq> k" "''description'' \<noteq> k" "''contributor'' \<noteq> k"
    "''url'' \<noteq> k" "''date_created'' \<noteq> k"
    using assms by (auto simp: info_fields_def)
  show ?thesis
    by (simp add: validate_info_def optional_insert_other[OF ne(1)] optional_insert_other[OF ne(2)]
        optional_insert_other[OF ne(3)] optional_insert_other[OF ne(4)]
        optional_insert_other[OF ne(5)] optional_insert_other[OF ne(6)]
        split: bind_splits)
qed

lemma keys_update_present:
  "map_of al k = Some v0 \<Longrightarrow> fst ` set (AList.update k v al) = fst ` set al"
  by (auto simp: dom_update dest: map_of_SomeD intro: rev_image_eqI)

lemma required_update_other:
  "f \<noteq> k \<Longrightarrow> required p (AList.update k v al) f = required p al f"
  by (simp add: required_def update_conv')

lemma required_update_same: "required p (AList.update k v al) k = p v"
  by (simp add: required_def update_conv')

lemma model_validate_info_replaced:
  assumes "model_validate lib (JObj obj) = Some d"
      and "map_of obj ''info'' = Some j0"
      and "validate_info lib j = Some i"
  shows "model_validate lib (JObj (AList.update ''info'' j obj)) = Some (d\<lparr>info := i\<rparr>)"
  using assms
  by (auto simp: model_validate_def no_extra_iff keys_update_present required_update_other
      required_update_same split: if_splits bind_splits)

lemma model_validate_info:
  "model_validate lib (JObj obj) = Some d \<Longrightarrow> map_of obj ''info'' = Some j0 \<Longrightarrow>
   validate_info lib j0 = Some (info d)"
  by (auto simp: model_validate_def required_def split: if_splits bind_splits)

text \<open>
  When \<^verbatim>\<open>json.loads\<close> returns an object with a top-level key that is none of the five
  fields of the document, \<^verbatim>\<open>parse_coco\<close> raises \<^verbatim>\<open>InvalidFormatError\<close> (whatever the rest
  of the object), and so does \<^verbatim>\<open>run_scan\<close>. An unknown key in the info block does not
  cause a failure: if an object validates to the document \<open>d\<close>, the same object with one
  more key in its info block, none of the six fields of the info, validates to \<open>d\<close> with
  that key and value kept among the extra fields of the info.
\<close>

lemma unknown_field_value_rejected:
  assumes "read_text lib filepath = Inr raw" and "json_loads lib raw = Inr (JObj obj)"
      and "k \<in> fst ` set obj" and "k \<notin> set data_fields"
  shows "parse_coco lib filepath = Inl InvalidFormatError \<and>
         run_scan lib all_rules filepath = Inl InvalidFormatError"
proof -
  have "model_validate lib (JObj obj) = None"
    using assms(3,4) by (rule unknown_field_refused)
  then have "parse_coco lib filepath = Inl InvalidFormatError"
    using assms(1,2) by (simp add: parse_coco_invalid)
  then show ?thesis by (simp add: run_scan_parse_error)
qed

lemma unknown_info_field_kept:
  assumes "k \<notin> set info_fields" and "model_validate lib (JObj obj) = Some d"
      and "map_of obj ''info'' = Some (JObj (pre @ post))"
      and "read_text lib filepath = Inr raw"
      and "json_loads lib raw = Inr (JObj (AList.update ''info'' (JObj (pre @ (k, v) # post)) obj))"
  shows "parse_coco lib filepath =
           Inr (d\<lparr>info := (info d)\<lparr>info_extra :=
                  filter (\<lambda>kv. fst kv \<notin> set info_fields) (pre @ (k, v) # post)\<rparr>\<rparr>)"
proof -
  have "validate_info lib (JObj (pre @ post)) = Some (info d)"
    using assms(2,3) by (rule model_validate_info)
  then have "validate_info lib (JObj (pre @ (k, v) # post)) =
      Some ((info d)\<lparr>info_extra := filter (\<lambda>kv. fst kv \<notin> set info_fields) (pre @ (k, v) # post)\<rparr>)"
    by (simp add: validate_info_unknown_field[OF assms(1)])
  then have "model_validate lib (JObj (AList.update ''info'' (JObj (pre @ (k, v) # post)) obj)) =
      Some (d\<lparr>info := (info d)\<lparr>info_extra :=
             filter (\<lambda>kv. fst kv \<notin> set info_fields) (pre @ (k, v) # post)\<rparr>\<rparr>)"
    using assms(2,3) by (rule model_validate_info_replaced[rotated 2])
  then show ?thesis
    using assms(4,5) by (simp add: parse_coco_validated)
qed

text \<open>
  A file with the five fields of a document and one unknown top-level field, whose value
  is the deeply nested array: syntactically valid JSON, on which \<^verbatim>\<open>json.loads\<close> raises
  \<^verbatim>\<open>RecursionError\<close>.
\<close>

definition quoted :: "string \<Rightarrow> string" where
  "quoted s = [CHR 0x22] @ s @ [CHR 0x22]"

definition deep_unknown_field_text :: string where
  "deep_unknown_field_text =
     ''{'' @ quoted ''info'' @ '': {}, '' @ quoted ''licenses'' @ '': [], '' @ quoted ''images''
       @ '': [], '' @ quoted ''annotations'' @ '': [], '' @ quoted ''categories'' @ '': [], ''
       @ quoted ''unexpected_top_level_key'' @ '': '' @ deep_array_text @ ''}''"

text \<open>
  C4. The claim has \<^verbatim>\<open>InvalidFormatError\<close> raised for every readable, syntactically valid
  text with a valid top-level structure and one unknown top-level field. On the file
  above the code raises no \<^verbatim>\<open>ParseError\<close>: the \<^verbatim>\<open>RecursionError\<close> of \<^verbatim>\<open>json.loads\<close>
  leaves \<^verbatim>\<open>parse_coco\<close> and \<^verbatim>\<open>run_scan\<close> uncaught. (With a short value under the unknown
  key the error is raised as claimed, and an unknown key in the info block is kept.)
\<close>

theorem deep_unknown_field_unhandled:
  "parse_coco (raising_library deep_unknown_field_text (PyException ''RecursionError''))
     ''extra.json'' = Inl (Unhandled (PyException ''RecursionError'')) \<and>
   run_scan (raising_library deep_unknown_field_text (PyException ''RecursionError'')) []
     ''extra.json'' = Inl (Unhandled (PyException ''RecursionError'')) \<and>
   parse_coco
     (example_library
        (JObj (document_json [(''year'', JInt 2024)] []
                 @ [(''unexpected_top_level_key'', JStr ''some_value'')])))
     ''short.json'' = Inl InvalidFormatError \<and>
   parse_coco
     (example_library
        (JObj (document_json [(''year'', JInt 2024), (''tool'', JStr ''labelme'')] [])))
     ''info.json'' =
       Inr ((example_data [] [] [])
              \<lparr>info := example_info\<lparr>info_year := Some 2024, info_extra := [(''tool'', JStr ''labelme'')]\<rparr>\<rparr>)"
  by (simp add: raising_library_def JSONDecodeError_def run_scan_def document_json_def
      validate_eval example_data_def example_info_def)

subsection \<open>The invariant of a scan result\<close>

lemma run_scan_result:
  "run_scan lib rs filepath = Inr r \<Longrightarrow> r = execute_rules (data r) rs"
  by (auto simp: run_scan_def execute_rules_def split: sum.splits prod.splits)

text \<open>
  C9. In every \<^verbatim>\<open>ScanResult\<close> that \<^verbatim>\<open>run_scan\<close> returns with the registered rules
  (whatever each of them does), \<^verbatim>\<open>total_findings\<close> is the sum of the lengths of the
  lists stored in \<^verbatim>\<open>findings\<close>, no stored list is empty, and no key occurs twice.
\<close>

theorem scan_result_consistent:
  assumes "map fst all_rules = registered_rule_names"
      and "run_scan lib all_rules filepath = Inr r"
  shows "total_findings r = sum_list (map (\<lambda>kv. int (length (snd kv))) (findings r)) \<and>
         (\<forall>kv \<in> set (findings r). snd kv \<noteq> []) \<and>
         distinct (map fst (findings r))"
proof -
  have r: "r = execute_rules (data r) all_rules"
    using assms(2) by (rule run_scan_result)
  have "findings_consistent (findings (execute_rules (data r) all_rules),
      total_findings (execute_rules (data r) all_rules))"
    using assms(1) by (rule execute_rules_consistent)
  then have "findings_consistent (findings r, total_findings r)"
    using r by simp
  then show ?thesis
    by (simp add: findings_consistent_def list_all_iff)
qed

text \<open>
  A registry for the worked example: the rules modelled above under their names, and
  stand-ins for the others.
\<close>

definition example_rules :: "rule list" where
  "example_rules =
     [(''check_attribute_area_bbox_mismatch'', check_attribute_area_bbox_mismatch py_fixed),
      (''check_category_case_consistency'', \<lambda>d. Inr []),
      (''check_category_duplicate_ids'', \<lambda>d. Inr [''Duplicate category ID #1 appears 2 times.'']),
      (''check_category_duplicate_names'', \<lambda>d. Inr []),
      (''check_geometry_bbox_out_of_bounds'', check_geometry_bbox_out_of_bounds py_fixed),
      (''check_geometry_zero_area_bboxes'', \<lambda>d. Inr []),
      (''check_relation_images_without_annotations'',
         \<lambda>d. Inr (check_relation_images_without_annotations d)),
      (''check_relation_unmatched_annotations'', \<lambda>d. Inr []),
      (''check_relation_unmatched_category'', \<lambda>d. Inr []),
      (''check_statistical_bbox_aspect_ratio_outliers'', \<lambda>d. Inl (PyException ''IndexError'')),
      (''check_statistical_class_distribution_imbalance'',
         \<lambda>d. Inr (check_statistical_class_distribution_imbalance d))]"

theorem scan_result_consistent_witness:
  "map fst example_rules = registered_rule_names \<and>
   run_scan (example_library (JObj (document_json [] []))) example_rules ''clean.json'' =
     Inr \<lparr>data = example_data [] [] [],
          findings =
            [(''check_category_duplicate_ids'', [''Duplicate category ID #1 appears 2 times.'']),
             (''check_statistical_bbox_aspect_ratio_outliers_execution_error'',
              [''Rule execution failed with an internal error.''])],
          total_findings = 2\<rparr>"
  using scan_result_consistent
          [of example_rules "example_library (JObj (document_json [] []))" "''clean.json''"
              "\<lparr>data = example_data [] [] [],
                findings =
                  [(''check_category_duplicate_ids'', [''Duplicate category ID #1 appears 2 times.'']),
                   (''check_statistical_bbox_aspect_ratio_outliers_execution_error'',
                    [''Rule execution failed with an internal error.''])],
                total_findings = 2\<rparr>"]
  by (simp add: example_rules_def registered_rule_names_def run_scan_def execute_rules_def
      document_json_def validate_eval example_data_def example_info_def
      execution_error_key_def error_finding_def
      check_attribute_area_bbox_mismatch_def check_geometry_bbox_out_of_bounds_def
      check_relation_images_without_annotations_def
      check_statistical_class_distribution_imbalance_def)

subsection \<open>Round trip\<close>









































end
